theory Spec2Isabelle
  imports Main "HOL-Library.Word"
begin

unbundle bit_operations_syntax

section \<open>Data model of \<^verbatim>\<open>main.go\<close>\<close>

text \<open>
  Go strings are byte sequences; \<^typ>\<open>string\<close> is a list of 8-bit characters, so
  \<^const>\<open>length\<close> is Go's \<^verbatim>\<open>len\<close> and list indexing is byte indexing.

  A Go \<^verbatim>\<open>error\<close> is either an opaque error carrying a message, or the result of
  \<^verbatim>\<open>fmt.Errorf("prefix: %w", err)\<close>: a prefix wrapping a cause that
  \<^verbatim>\<open>errors.Unwrap\<close> gives back.
\<close>

datatype error = Err string | Wrap string error

fun error_msg :: "error \<Rightarrow> string" where
  "error_msg (Err m) = m"
| "error_msg (Wrap prefix cause) = prefix @ error_msg cause"

text \<open>The anonymous struct of the field \<^verbatim>\<open>Status\<close> of \<^verbatim>\<open>EKSTokenResponse\<close> (lines 32-37).\<close>

record TokenStatus =
  ExpirationTimestamp :: string
  Token :: string
  ClientCertificateData :: string
  ClientKeyData :: string

text \<open>\<^verbatim>\<open>EKSTokenResponse\<close> (lines 29-38).\<close>

record EKSTokenResponse =
  Kind :: string
  APIVersion :: string
  Status :: TokenStatus

text \<open>
  \<^verbatim>\<open>Params\<close> (lines 41-54). \<^verbatim>\<open>TTL\<close> is a Go \<^verbatim>\<open>int\<close>: 64 bits, two's
  complement, on the 64-bit platforms the tool is built for.
\<close>

record Params =
  ClusterName :: string
  ClusterId :: string
  Region :: string
  Profile :: string
  RoleArn :: string
  IgnoreCache :: bool
  ClientCertFile :: string
  ClientKeyFile :: string
  TTL :: "64 word"
  Output :: string
  STSRegionalEndpoint :: string
  CacheDir :: string

definition defaultTTL :: "64 word" where
  "defaultTTL = 900"

definition presignExpires :: int where
  "presignExpires = 60"

section \<open>The environment of one invocation\<close>

text \<open>
  Everything the program asks of the operating system, the clock, the JSON and time
  libraries and the AWS SDK is a field of the environment; a theorem that quantifies
  over the environment holds whatever these collaborators answer. The type \<open>'c\<close> is
  the SDK's \<^verbatim>\<open>aws.Config\<close>.

  One invocation reads the clock at two places, each at most once: line 273 (validity
  of the cached token) and line 404 (expiration of a new token). Times are instants in
  nanoseconds since the Unix epoch. The answers of the file system are those of a
  system that no other process changes during the invocation.
\<close>

datatype loadOption = WithRegion string | WithSharedConfigProfile string

record 'c environment =
  os_Getenv :: "string \<Rightarrow> string"
  os_UserHomeDir :: "error + string"
  os_MkdirAll :: "string \<Rightarrow> 32 word \<Rightarrow> error option"
  os_ReadFile :: "string \<Rightarrow> error + string"
  os_WriteFile :: "string \<Rightarrow> string \<Rightarrow> 32 word \<Rightarrow> error option"
  time_Now_273 :: int
  time_Now_404 :: int
  time_Parse_RFC3339 :: "string \<Rightarrow> error + int"
  time_Format_RFC3339 :: "int \<Rightarrow> string"
  json_Marshal :: "EKSTokenResponse \<Rightarrow> error + string"
  json_MarshalIndent :: "EKSTokenResponse \<Rightarrow> error + string"
  json_Unmarshal :: "string \<Rightarrow> error + EKSTokenResponse"
  config_LoadDefaultConfig :: "loadOption list \<Rightarrow> string \<Rightarrow> error + 'c"
  stscreds_NewAssumeRoleProvider :: "'c \<Rightarrow> string \<Rightarrow> 'c"
  eks_DescribeCluster :: "'c \<Rightarrow> string \<Rightarrow> error option"
  sts_PresignGetCallerIdentity :: "'c \<Rightarrow> (string \<times> string) list \<Rightarrow> error + string"

text \<open>
  What an invocation does to the world, in order: directories it asks to create, files
  it writes (path, content, mode), process environment variables it sets, and lines on
  the two output streams.
\<close>

datatype effect =
  Mkdir string "32 word"
| Write string string "32 word"
| Setenv string string
| Stdout string
| Stderr string

text \<open>
  How a Go function call ends: it returns, the process exits (\<^verbatim>\<open>os.Exit\<close>), or the
  goroutine panics with a run-time error.
\<close>

datatype 'a outcome = Return 'a | Exit int | Panic string

type_synonym 'a run = "effect list \<times> 'a outcome"

definition ret :: "'a \<Rightarrow> 'a run" where
  "ret a = ([], Return a)"

fun and_then :: "'a run \<Rightarrow> ('a \<Rightarrow> 'b run) \<Rightarrow> 'b run" where
  "and_then (es, Return a) f = (es @ fst (f a), snd (f a))"
| "and_then (es, Exit code) f = (es, Exit code)"
| "and_then (es, Panic m) f = (es, Panic m)"

section \<open>Configuration resolution: \<^verbatim>\<open>PreRunE\<close> (lines 114-166)\<close>

text \<open>
  The closure is a sequence of blocks, each introduced by a comment in the source; the
  model has one definition per block and \<open>PreRunE\<close> runs them in the source's order.

  Lines 122-131: the region from the environment when the flag is absent.
\<close>

definition resolveRegion :: "'c environment \<Rightarrow> Params \<Rightarrow> error + Params" where
  "resolveRegion env params =
    (if Region params = '''' then
       (if os_Getenv env ''AWS_REGION'' \<noteq> '''' then
          Inr (params\<lparr>Region := os_Getenv env ''AWS_REGION''\<rparr>)
        else if os_Getenv env ''AWS_DEFAULT_REGION'' \<noteq> '''' then
          Inr (params\<lparr>Region := os_Getenv env ''AWS_DEFAULT_REGION''\<rparr>)
        else
          Inl (Err ''region must be specified via --region flag or AWS_REGION/AWS_DEFAULT_REGION environment variable''))
     else Inr params)"

text \<open>Lines 133-138: the profile from the environment when the flag is absent.\<close>

definition resolveProfile :: "'c environment \<Rightarrow> Params \<Rightarrow> Params" where
  "resolveProfile env params =
    (if Profile params = '''' \<and> os_Getenv env ''AWS_PROFILE'' \<noteq> ''''
     then params\<lparr>Profile := os_Getenv env ''AWS_PROFILE''\<rparr>
     else params)"

text \<open>Lines 140-148: the STS endpoint scope from the environment, or its default.\<close>

definition resolveSTSRegionalEndpoint :: "'c environment \<Rightarrow> Params \<Rightarrow> Params" where
  "resolveSTSRegionalEndpoint env params =
    (if STSRegionalEndpoint params = '''' then
       (if os_Getenv env ''AWS_STS_REGIONAL_ENDPOINT'' \<noteq> ''''
        then params\<lparr>STSRegionalEndpoint := os_Getenv env ''AWS_STS_REGIONAL_ENDPOINT''\<rparr>
        else params\<lparr>STSRegionalEndpoint := ''regional''\<rparr>)
     else params)"

text \<open>Lines 150-165: the three validations of the resolved parameters.\<close>

definition validateResolved :: "Params \<Rightarrow> error option" where
  "validateResolved params =
    (if STSRegionalEndpoint params \<noteq> '''' \<and> STSRegionalEndpoint params \<noteq> ''regional''
        \<and> STSRegionalEndpoint params \<noteq> ''legacy'' then
       Some (Err (''invalid sts-regional-endpoints value '' @ [CHR 0x27]
                  @ STSRegionalEndpoint params @ [CHR 0x27] @ ''. Valid values are ''
                  @ [CHR 0x27] @ ''regional'' @ [CHR 0x27] @ '' or ''
                  @ [CHR 0x27] @ ''legacy'' @ [CHR 0x27]))
     else if Output params \<noteq> '''' \<and> Output params \<noteq> ''json'' then
       Some (Err (''invalid output format '' @ [CHR 0x27] @ Output params @ [CHR 0x27]
                  @ ''. Only '' @ [CHR 0x27] @ ''json'' @ [CHR 0x27]
                  @ '' is supported or omit for default''))
     else if CacheDir params \<noteq> '''' \<and> IgnoreCache params then
       Some (Err ''--cache-dir and --ignore-cache are mutually exclusive'')
     else None)"

definition PreRunE :: "'c environment \<Rightarrow> Params \<Rightarrow> error + Params" where
  "PreRunE env params =
    (if ClusterName params = '''' \<and> ClusterId params = '''' then
       Inl (Err ''either --cluster-name or --cluster-id must be specified'')
     else if ClusterName params \<noteq> '''' \<and> ClusterId params \<noteq> '''' then
       Inl (Err ''--cluster-name and --cluster-id are mutually exclusive'')
     else
       (case resolveRegion env params of
          Inl err \<Rightarrow> Inl err
        | Inr params1 \<Rightarrow>
            (case validateResolved
                    (resolveSTSRegionalEndpoint env (resolveProfile env params1)) of
               Some err \<Rightarrow> Inl err
             | None \<Rightarrow> Inr (resolveSTSRegionalEndpoint env (resolveProfile env params1)))))"

section \<open>The Go library functions the program computes with\<close>

text \<open>
  \<^verbatim>\<open>strings.Split(s, sep)\<close> for a one-byte separator: the pieces between the
  separators, \<open>n + 1\<close> of them when the separator occurs \<open>n\<close> times.
\<close>

fun strings_Split :: "string \<Rightarrow> char \<Rightarrow> string list" where
  "strings_Split [] sep = [[]]"
| "strings_Split (c # cs) sep =
     (if c = sep then [] # strings_Split cs sep
      else (case strings_Split cs sep of
              [] \<Rightarrow> [[c]]
            | piece # pieces \<Rightarrow> (c # piece) # pieces))"

text \<open>\<^verbatim>\<open>strings.Join(elems, sep)\<close>.\<close>

fun strings_Join :: "string list \<Rightarrow> string \<Rightarrow> string" where
  "strings_Join [] sep = []"
| "strings_Join [x] sep = x"
| "strings_Join (x # y # ys) sep = x @ sep @ strings_Join (y # ys) sep"

text \<open>\<^verbatim>\<open>strings.TrimRight(s, cutset)\<close>: \<open>s\<close> without its trailing bytes that are in the cutset.\<close>

definition strings_TrimRight :: "string \<Rightarrow> string \<Rightarrow> string" where
  "strings_TrimRight s cutset = rev (dropWhile (\<lambda>c. c \<in> set cutset) (rev s))"

text \<open>\<^verbatim>\<open>strconv.Itoa\<close>: the decimal digits, with a minus sign for a negative number.\<close>

fun decimal :: "nat \<Rightarrow> string" where
  "decimal n = (if n < 10 then [''0123456789'' ! n]
                else decimal (n div 10) @ [''0123456789'' ! (n mod 10)])"

declare decimal.simps [simp del]

definition strconv_Itoa :: "int \<Rightarrow> string" where
  "strconv_Itoa i = (if i < 0 then CHR ''-'' # decimal (nat (- i)) else decimal (nat i))"

text \<open>
  \<^verbatim>\<open>filepath.Clean\<close> on Unix, by path elements: empty elements and \<^verbatim>\<open>.\<close> are
  dropped, \<^verbatim>\<open>..\<close> removes the element before it (if that is not \<^verbatim>\<open>..\<close> itself),
  is dropped at the root, and is kept at the start of a relative path. The empty
  result is \<^verbatim>\<open>.\<close>; a rooted path keeps its leading separator.
\<close>

definition clean_step :: "bool \<Rightarrow> string list \<Rightarrow> string \<Rightarrow> string list" where
  "clean_step rooted out elem =
    (if elem = '''' \<or> elem = ''.'' then out
     else if elem = ''..'' then
       (if out \<noteq> [] \<and> last out \<noteq> ''..'' then butlast out
        else if rooted then out
        else out @ [''..''])
     else out @ [elem])"

definition filepath_Clean :: "string \<Rightarrow> string" where
  "filepath_Clean path =
    (if path = '''' then ''.''
     else
       let rooted = (hd path = CHR ''/'');
           out = foldl (clean_step rooted) [] (strings_Split path CHR ''/'')
       in if rooted then CHR ''/'' # strings_Join out ''/''
          else if out = [] then ''.''
          else strings_Join out ''/'')"

text \<open>
  \<^verbatim>\<open>filepath.Join\<close> on Unix: from the first non-empty element on, the elements are
  joined with the separator and the result is cleaned; with no non-empty element the
  result is the empty string.
\<close>

definition filepath_Join :: "string list \<Rightarrow> string" where
  "filepath_Join elem =
    (case dropWhile (\<lambda>e. e = '''') elem of
       [] \<Rightarrow> ''''
     | e # es \<Rightarrow> filepath_Clean (strings_Join (e # es) ''/''))"

text \<open>
  \<^verbatim>\<open>base64.RawURLEncoding.EncodeToString\<close>: three bytes give four characters of the
  URL alphabet, a rest of one byte gives two and a rest of two bytes gives three; no
  padding is written.
\<close>

definition encodeURL :: string where
  "encodeURL = ''ABCDEFGHIJKLMNOPQRSTUVWXYZabcdefghijklmnopqrstuvwxyz0123456789-_''"

fun base64_RawURLEncoding :: "string \<Rightarrow> string" where
  "base64_RawURLEncoding (a # b # c # rest) =
     (let val = (of_char a :: nat) * 65536 + of_char b * 256 + of_char c
      in [encodeURL ! (val div 262144 mod 64), encodeURL ! (val div 4096 mod 64),
          encodeURL ! (val div 64 mod 64), encodeURL ! (val mod 64)]
         @ base64_RawURLEncoding rest)"
| "base64_RawURLEncoding [a, b] =
     (let val = (of_char a :: nat) * 65536 + of_char b * 256
      in [encodeURL ! (val div 262144 mod 64), encodeURL ! (val div 4096 mod 64),
          encodeURL ! (val div 64 mod 64)])"
| "base64_RawURLEncoding [a] =
     (let val = (of_char a :: nat) * 65536
      in [encodeURL ! (val div 262144 mod 64), encodeURL ! (val div 4096 mod 64)])"
| "base64_RawURLEncoding [] = []"

text \<open>
  A Go slice expression \<^verbatim>\<open>s[lo:hi]\<close> on a string: the bytes from \<open>lo\<close> up to
  \<open>hi\<close>, and a run-time panic unless \<open>lo \<le> hi \<le> len(s)\<close>.
\<close>

definition go_slice :: "string \<Rightarrow> nat \<Rightarrow> nat \<Rightarrow> string outcome" where
  "go_slice s lo hi =
    (if hi \<le> length s \<and> lo \<le> hi then Return (take (hi - lo) (drop lo s))
     else Panic (''runtime error: slice bounds out of range [:'' @ strconv_Itoa (int hi)
                 @ ''] with length '' @ strconv_Itoa (int (length s))))"

section \<open>The cache store\<close>

text \<open>The permission arguments of lines 224 and 283, octal 0755 and 0600.\<close>

definition mode_0755 :: "32 word" where
  "mode_0755 = 7 * 64 + 5 * 8 + 5"

definition mode_0600 :: "32 word" where
  "mode_0600 = 6 * 64"

text \<open>
  The permission bits of a mode that belong to the group and to others (octal 077),
  and the traversal (execute) bits among them (octal 011).
\<close>

definition group_other_bits :: "32 word \<Rightarrow> 32 word" where
  "group_other_bits m = m AND 63"

definition group_other_traversal_bits :: "32 word \<Rightarrow> 32 word" where
  "group_other_traversal_bits m = m AND 9"

definition owner_only :: "32 word \<Rightarrow> bool" where
  "owner_only m = (group_other_bits m = 0)"

text \<open>
  \<^verbatim>\<open>os.MkdirAll\<close> and \<^verbatim>\<open>os.WriteFile\<close> take the permission bits "before umask":
  what they create has the requested bits that the process umask does not clear.
\<close>

definition created_with :: "32 word \<Rightarrow> 32 word \<Rightarrow> 32 word" where
  "created_with umask perm = perm AND NOT umask"

text \<open>\<^verbatim>\<open>expandHomeDir\<close> (lines 198-207).\<close>

definition expandHomeDir :: "'c environment \<Rightarrow> string \<Rightarrow> string" where
  "expandHomeDir env path =
    (if length path > 0 \<and> path ! 0 = CHR ''~'' then
       (case os_UserHomeDir env of
          Inl err \<Rightarrow> path
        | Inr homeDir \<Rightarrow> filepath_Join [homeDir, drop 1 path])
     else path)"

text \<open>
  The local variable \<^verbatim>\<open>clusterIdentifier\<close> of \<^verbatim>\<open>getCacheFilePath\<close> (lines
  229-247). The condition of line 233 evaluates \<^verbatim>\<open>params.ClusterId[0:4]\<close> whenever
  the identifier is not empty.
\<close>

definition clusterIdentifier :: "Params \<Rightarrow> string outcome" where
  "clusterIdentifier params =
    (if ClusterId params \<noteq> '''' then
       (if length (ClusterId params) > 0 then
          (case go_slice (ClusterId params) 0 4 of
             Return prefix \<Rightarrow>
               (if prefix = ''arn:'' then
                  (let parts = strings_Split (ClusterId params) CHR ''/'' in
                   if length parts > 0 then Return (parts ! (length parts - 1))
                   else Return (ClusterId params))
                else Return (ClusterId params))
           | Exit code \<Rightarrow> Exit code
           | Panic m \<Rightarrow> Panic m)
        else Return (ClusterId params))
     else Return (ClusterName params))"

text \<open>The local variable \<^verbatim>\<open>cacheDir\<close> of \<^verbatim>\<open>getCacheFilePath\<close> (lines 210-222).\<close>

definition cacheDir :: "'c environment \<Rightarrow> Params \<Rightarrow> error + string" where
  "cacheDir env params =
    (if CacheDir params \<noteq> '''' then Inr (expandHomeDir env (CacheDir params))
     else
       (case os_UserHomeDir env of
          Inl err \<Rightarrow> Inl (Wrap ''failed to get user home directory: '' err)
        | Inr homeDir \<Rightarrow> Inr (filepath_Join [homeDir, ''.kube'', ''cache'', ''tokens''])))"

text \<open>\<^verbatim>\<open>getCacheFilePath\<close> (lines 209-251).\<close>

definition getCacheFilePath :: "'c environment \<Rightarrow> Params \<Rightarrow> (error + string) run" where
  "getCacheFilePath env params =
    (case cacheDir env params of
       Inl e \<Rightarrow> ([], Return (Inl e))
     | Inr dir \<Rightarrow>
         (case os_MkdirAll env dir mode_0755 of
            Some err \<Rightarrow>
              ([Mkdir dir mode_0755], Return (Inl (Wrap ''failed to create cache directory: '' err)))
          | None \<Rightarrow>
              (case clusterIdentifier params of
                 Return ident \<Rightarrow>
                   ([Mkdir dir mode_0755],
                    Return (Inr (filepath_Join [dir, ident @ ''_'' @ Region params @ ''.json''])))
               | Exit code \<Rightarrow> ([Mkdir dir mode_0755], Exit code)
               | Panic m \<Rightarrow> ([Mkdir dir mode_0755], Panic m))))"

text \<open>\<^verbatim>\<open>readCachedToken\<close> (lines 253-265).\<close>

definition readCachedToken :: "'c environment \<Rightarrow> string \<Rightarrow> error + EKSTokenResponse" where
  "readCachedToken env cacheFile =
    (case os_ReadFile env cacheFile of
       Inl err \<Rightarrow> Inl err
     | Inr data \<Rightarrow>
         (case json_Unmarshal env data of
            Inl err \<Rightarrow> Inl err
          | Inr token \<Rightarrow> Inr token))"

text \<open>\<^verbatim>\<open>isTokenValid\<close> (lines 267-275).\<close>

definition isTokenValid :: "'c environment \<Rightarrow> EKSTokenResponse \<Rightarrow> bool" where
  "isTokenValid env token =
    (case time_Parse_RFC3339 env (ExpirationTimestamp (Status token)) of
       Inl err \<Rightarrow> False
     | Inr expiration \<Rightarrow> time_Now_273 env < expiration)"

text \<open>\<^verbatim>\<open>writeCachedToken\<close> (lines 277-284).\<close>

definition writeCachedToken ::
  "'c environment \<Rightarrow> string \<Rightarrow> EKSTokenResponse \<Rightarrow> error option run" where
  "writeCachedToken env cacheFile token =
    (case json_MarshalIndent env token of
       Inl err \<Rightarrow> ([], Return (Some err))
     | Inr data \<Rightarrow>
         ([Write cacheFile data mode_0600], Return (os_WriteFile env cacheFile data mode_0600)))"

section \<open>The token generator\<close>

text \<open>\<^verbatim>\<open>loadAWSConfig\<close> (lines 342-373).\<close>

definition loadAWSConfig :: "'c environment \<Rightarrow> Params \<Rightarrow> (error + 'c) run" where
  "loadAWSConfig env params =
    (let opts = [WithRegion (Region params)]
                @ (if Profile params \<noteq> '''' then [WithSharedConfigProfile (Profile params)] else []);
         setenv = (if STSRegionalEndpoint params \<noteq> ''''
                   then [Setenv ''AWS_STS_REGIONAL_ENDPOINTS'' (STSRegionalEndpoint params)] else []);
         endpoints = (if STSRegionalEndpoint params \<noteq> '''' then STSRegionalEndpoint params
                      else os_Getenv env ''AWS_STS_REGIONAL_ENDPOINTS'')
     in case config_LoadDefaultConfig env opts endpoints of
          Inl err \<Rightarrow> (setenv, Return (Inl err))
        | Inr cfg \<Rightarrow>
            (setenv,
             Return (Inr (if RoleArn params \<noteq> ''''
                          then stscreds_NewAssumeRoleProvider env cfg (RoleArn params)
                          else cfg))))"

text \<open>
  \<^verbatim>\<open>generateEKSToken\<close> (lines 375-410). \<^verbatim>\<open>time.Duration\<close> is a 64-bit signed
  count of nanoseconds and \<^verbatim>\<open>time.Second\<close> is \<open>10\<^sup>9\<close>, so the product of line
  404 is computed modulo \<open>2\<^sup>6\<^sup>4\<close>. A failed presign request ends the process at line
  397; the third component of the result is \<^verbatim>\<open>nil\<close> on every return.
\<close>

definition generateEKSToken ::
  "'c environment \<Rightarrow> 'c \<Rightarrow> string \<Rightarrow> 64 word \<Rightarrow> (error + string \<times> int) run" where
  "generateEKSToken env cfg clusterName ttl =
    (case sts_PresignGetCallerIdentity env cfg
            [(''x-k8s-aws-id'', clusterName), (''X-Amz-Expires'', strconv_Itoa presignExpires)] of
       Inl err \<Rightarrow>
         ([Stderr (''failed to presign GetCallerIdentity: '' @ error_msg err @ ''\<newline>'')], Exit 1)
     | Inr url \<Rightarrow>
         (let token = ''k8s-aws-v1.'' @ base64_RawURLEncoding url;
              expiration = time_Now_404 env + sint (ttl * 1000000000)
          in ([], Return (Inr (strings_TrimRight token ''='', expiration)))))"

text \<open>\<^verbatim>\<open>fetchNewToken\<close> (lines 286-340).\<close>

definition fetchNewToken :: "'c environment \<Rightarrow> Params \<Rightarrow> (error + EKSTokenResponse) run" where
  "fetchNewToken env params =
    and_then (loadAWSConfig env params) (\<lambda>loaded.
      case loaded of
        Inl err \<Rightarrow> ret (Inl (Wrap ''failed to load AWS config: '' err))
      | Inr cfg \<Rightarrow>
          (let clusterName = (if ClusterId params \<noteq> '''' then ClusterId params
                              else ClusterName params)
           in case eks_DescribeCluster env cfg clusterName of
                Some err \<Rightarrow> ret (Inl (Wrap ''failed to describe cluster: '' err))
              | None \<Rightarrow>
                  and_then (generateEKSToken env cfg clusterName (TTL params)) (\<lambda>generated.
                    case generated of
                      Inl err \<Rightarrow> ret (Inl (Wrap ''failed to generate EKS token: '' err))
                    | Inr (token, expiration) \<Rightarrow>
                        ret (Inr \<lparr>Kind = ''ExecCredential'',
                                  APIVersion = ''client.authentication.k8s.io/v1beta1'',
                                  Status = \<lparr>ExpirationTimestamp = time_Format_RFC3339 env expiration,
                                            Token = token,
                                            ClientCertificateData = '''',
                                            ClientKeyData = ''''\<rparr>\<rparr>))))"

section \<open>The credential augmenter and the orchestrator\<close>

text \<open>
  \<^verbatim>\<open>addClientCertificates\<close> (lines 412-430). The Go function updates the record
  behind the pointer; the model returns the updated record.
\<close>

definition addClientCertificates ::
  "'c environment \<Rightarrow> EKSTokenResponse \<Rightarrow> Params \<Rightarrow> error + EKSTokenResponse" where
  "addClientCertificates env token params =
    (case (if ClientCertFile params \<noteq> '''' then
             (case os_ReadFile env (ClientCertFile params) of
                Inl err \<Rightarrow> Inl (Wrap ''failed to read client certificate file: '' err)
              | Inr certData \<Rightarrow>
                  Inr (token\<lparr>Status := (Status token)\<lparr>ClientCertificateData := certData\<rparr>\<rparr>))
           else Inr token) of
       Inl e \<Rightarrow> Inl e
     | Inr token1 \<Rightarrow>
         (if ClientKeyFile params \<noteq> '''' then
            (case os_ReadFile env (ClientKeyFile params) of
               Inl err \<Rightarrow> Inl (Wrap ''failed to read client key file: '' err)
             | Inr keyData \<Rightarrow>
                 Inr (token1\<lparr>Status := (Status token1)\<lparr>ClientKeyData := keyData\<rparr>\<rparr>))
          else Inr token1))"

text \<open>\<^verbatim>\<open>outputToken\<close> (lines 432-440).\<close>

definition outputToken :: "'c environment \<Rightarrow> EKSTokenResponse \<Rightarrow> error option run" where
  "outputToken env token =
    (case json_Marshal env token of
       Inl err \<Rightarrow> ([], Return (Some err))
     | Inr data \<Rightarrow> ([Stdout (data @ ''\<newline>'')], Return None))"

text \<open>
  The record that lines 478-480 copy from the token and clear before it is written.
\<close>

definition tokenToCache :: "EKSTokenResponse \<Rightarrow> EKSTokenResponse" where
  "tokenToCache token =
    token\<lparr>Status := (Status token)\<lparr>ClientCertificateData := '''', ClientKeyData := ''''\<rparr>\<rparr>"

text \<open>
  \<^verbatim>\<open>getEKSToken\<close>, lines 477-494: the token is cached without its client
  certificate and key, unless the cache is ignored, and written to standard output.
\<close>

definition getEKSToken_cache_and_output ::
  "'c environment \<Rightarrow> Params \<Rightarrow> EKSTokenResponse \<Rightarrow> error option run" where
  "getEKSToken_cache_and_output env params token =
    and_then
      (if \<not> IgnoreCache params then
         and_then (getCacheFilePath env params) (\<lambda>derived.
           case derived of
             Inl err \<Rightarrow> ret (Some (Wrap ''failed to get cache file path: '' err))
           | Inr cacheFile \<Rightarrow>
               and_then (writeCachedToken env cacheFile (tokenToCache token)) (\<lambda>written.
                 case written of
                   Some err \<Rightarrow>
                     ([Stderr (''Warning: failed to cache token: '' @ error_msg err
                               @ ''\<newline>'')], Return None)
                 | None \<Rightarrow> ret None))
       else ret None)
      (\<lambda>returned.
         case returned of
           Some err \<Rightarrow> ret (Some err)
         | None \<Rightarrow> outputToken env token)"

text \<open>
  \<^verbatim>\<open>getEKSToken\<close> from line 464 on: the path taken when no valid cached token
  was written to standard output.
\<close>

definition getEKSToken_fetch :: "'c environment \<Rightarrow> Params \<Rightarrow> error option run" where
  "getEKSToken_fetch env params =
    and_then (fetchNewToken env params) (\<lambda>fetched.
      case fetched of
        Inl err \<Rightarrow> ret (Some (Wrap ''failed to fetch new token: '' err))
      | Inr token0 \<Rightarrow>
          (case (if ClientCertFile params \<noteq> '''' \<or> ClientKeyFile params \<noteq> ''''
                 then addClientCertificates env token0 params else Inr token0) of
             Inl err \<Rightarrow> ret (Some (Wrap ''failed to add client certificates: '' err))
           | Inr token \<Rightarrow> getEKSToken_cache_and_output env params token))"

text \<open>\<^verbatim>\<open>getEKSToken\<close> (lines 442-495).\<close>

definition getEKSToken :: "'c environment \<Rightarrow> Params \<Rightarrow> error option run" where
  "getEKSToken env params =
    (if \<not> IgnoreCache params then
       and_then (getCacheFilePath env params) (\<lambda>derived.
         case derived of
           Inl err \<Rightarrow> ret (Some (Wrap ''failed to get cache file path: '' err))
         | Inr cacheFile \<Rightarrow>
             (case readCachedToken env cacheFile of
                Inr cachedToken \<Rightarrow>
                  (if isTokenValid env cachedToken then
                     (case (if ClientCertFile params \<noteq> '''' \<or> ClientKeyFile params \<noteq> ''''
                            then addClientCertificates env cachedToken params
                            else Inr cachedToken) of
                        Inl err \<Rightarrow> ret (Some (Wrap ''failed to add client certificates: '' err))
                      | Inr token \<Rightarrow> outputToken env token)
                   else getEKSToken_fetch env params)
              | Inl err \<Rightarrow> getEKSToken_fetch env params))
     else getEKSToken_fetch env params)"

text \<open>
  How the process ends after the command has run (lines 172-175 of \<^verbatim>\<open>main\<close>, and
  the Go run time): status 0 when the command returned \<^verbatim>\<open>nil\<close>, status 1 when it
  returned an error, the argument of \<^verbatim>\<open>os.Exit\<close>, and status 2 after a panic that
  nothing recovers.
\<close>

definition exit_status :: "error option outcome \<Rightarrow> int" where
  "exit_status r =
    (case r of
       Return None \<Rightarrow> 0
     | Return (Some err) \<Rightarrow> 1
     | Exit code \<Rightarrow> code
     | Panic m \<Rightarrow> 2)"

section \<open>Sample inputs\<close>

definition sample_params :: Params where
  "sample_params =
    \<lparr>ClusterName = ''my-cluster'', ClusterId = '''', Region = ''us-west-2'', Profile = '''',
     RoleArn = '''', IgnoreCache = False, ClientCertFile = '''', ClientKeyFile = '''',
     TTL = defaultTTL, Output = '''', STSRegionalEndpoint = ''regional'', CacheDir = ''''\<rparr>"

text \<open>
  A sample environment: home directory \<^verbatim>\<open>/home/u\<close>, no cache file, a certificate
  and a key file, a clock at 1000 seconds, and stand-ins for the time and JSON
  libraries that are good enough to tell records apart.
\<close>

definition sample_marshal :: "EKSTokenResponse \<Rightarrow> string" where
  "sample_marshal t =
    Kind t @ ''|'' @ APIVersion t @ ''|'' @ ExpirationTimestamp (Status t) @ ''|''
    @ Token (Status t) @ ''|'' @ ClientCertificateData (Status t) @ ''|''
    @ ClientKeyData (Status t)"

definition sample_env :: "unit environment" where
  "sample_env =
    \<lparr>os_Getenv = (\<lambda>name. ''''),
     os_UserHomeDir = Inr ''/home/u'',
     os_MkdirAll = (\<lambda>path mode. None),
     os_ReadFile = (\<lambda>path. if path = ''/home/u/client.crt'' then Inr ''CERT''
                            else if path = ''/home/u/client.key'' then Inr ''KEY''
                            else Inl (Err ''no such file or directory'')),
     os_WriteFile = (\<lambda>path data mode. None),
     time_Now_273 = 1000000000000,
     time_Now_404 = 1000000000000,
     time_Parse_RFC3339 = (\<lambda>s. if s = ''1970-01-01T00:31:40Z'' then Inr 1900000000000
                                 else Inl (Err ''cannot parse'')),
     time_Format_RFC3339 = (\<lambda>t. if t = 1900000000000 then ''1970-01-01T00:31:40Z''
                                  else ''other''),
     json_Marshal = (\<lambda>t. Inr (sample_marshal t)),
     json_MarshalIndent = (\<lambda>t. Inr (sample_marshal t)),
     json_Unmarshal = (\<lambda>data. Inl (Err ''unexpected end of JSON input'')),
     config_LoadDefaultConfig = (\<lambda>opts endpoints. Inr ()),
     stscreds_NewAssumeRoleProvider = (\<lambda>cfg role. cfg),
     eks_DescribeCluster = (\<lambda>cfg name. None),
     sts_PresignGetCallerIdentity = (\<lambda>cfg headers. Inr ''https://sts/?x'')\<rparr>"

definition sample_token :: EKSTokenResponse where
  "sample_token =
    \<lparr>Kind = ''ExecCredential'', APIVersion = ''client.authentication.k8s.io/v1beta1'',
     Status = \<lparr>ExpirationTimestamp = ''1970-01-01T00:31:40Z'', Token = ''k8s-aws-v1.YQ'',
               ClientCertificateData = '''', ClientKeyData = ''''\<rparr>\<rparr>"

text \<open>The sample environment with a presigner that finds no credentials.\<close>

definition sample_env_no_credentials :: "unit environment" where
  "sample_env_no_credentials =
    sample_env\<lparr>sts_PresignGetCallerIdentity := (\<lambda>cfg headers. Inl (Err ''no credentials''))\<rparr>"

text \<open>The sample parameters with a client certificate and key.\<close>

definition sample_params_certs :: Params where
  "sample_params_certs =
     sample_params\<lparr>ClientCertFile := ''/home/u/client.crt'', ClientKeyFile := ''/home/u/client.key''\<rparr>"

text \<open>The sample environment with a file system that refuses every write.\<close>

definition sample_env_read_only :: "unit environment" where
  "sample_env_read_only =
     sample_env\<lparr>os_WriteFile := (\<lambda>path data mode. Some (Err ''permission denied''))\<rparr>"

text \<open>
  The token that the sample environment generates, and the same token with the sample
  certificate and key attached.
\<close>

definition sample_fetched :: EKSTokenResponse where
  "sample_fetched =
     sample_token\<lparr>Status := (Status sample_token)\<lparr>Token := ''k8s-aws-v1.aHR0cHM6Ly9zdHMvP3g''\<rparr>\<rparr>"

definition sample_augmented :: EKSTokenResponse where
  "sample_augmented =
     sample_fetched\<lparr>Status := (Status sample_fetched)
        \<lparr>ClientCertificateData := ''CERT'', ClientKeyData := ''KEY''\<rparr>\<rparr>"

text \<open>The sample parameters with the cluster given by its resource identifier.\<close>

definition sample_params_arn :: Params where
  "sample_params_arn =
     sample_params\<lparr>ClusterName := '''',
                   ClusterId := ''arn:aws:eks:us-west-2:123456789012:cluster/my-cluster''\<rparr>"

section \<open>Facts about the library functions\<close>

lemma Itoa_presignExpires: "strconv_Itoa presignExpires = ''60''"
  by (simp add: strconv_Itoa_def presignExpires_def decimal.simps)

lemma length_encodeURL: "length encodeURL = 64"
  by (simp add: encodeURL_def)

lemma encodeURL_nth_mem: "encodeURL ! (n mod 64) \<in> set encodeURL"
  by (rule nth_mem) (simp add: length_encodeURL)

lemma base64_alphabet: "set (base64_RawURLEncoding s) \<subseteq> set encodeURL"
  by (induction s rule: base64_RawURLEncoding.induct)
     (simp_all add: Let_def encodeURL_nth_mem del: mod_mod_trivial)

lemma pad_not_in_encodeURL: "CHR ''='' \<notin> set encodeURL"
  by (simp add: encodeURL_def)

lemma TrimRight_unchanged:
  assumes disj: "set s \<inter> set cutset = {}"
  shows "strings_TrimRight s cutset = s"
proof -
  have "dropWhile (\<lambda>c. c \<in> set cutset) (rev s) = rev s"
  proof (cases "rev s")
    case Nil
    then show ?thesis by simp
  next
    case (Cons x xs)
    then have "x \<in> set s" by (metis list.set_intros(1) set_rev)
    with disj have "x \<notin> set cutset" by blast
    with Cons show ?thesis by simp
  qed
  then show ?thesis by (simp add: strings_TrimRight_def)
qed

lemma sint_mult_in_range:
  fixes ttl :: "64 word"
  assumes "- 9223372036 \<le> sint ttl" and "sint ttl \<le> 9223372036"
  shows "sint (ttl * 1000000000) = sint ttl * 1000000000"
proof -
  have "sint (ttl * 1000000000) = signed_take_bit 63 (sint ttl * sint (1000000000 :: 64 word))"
    by (simp add: sint_word_ariths)
  also have "sint (1000000000 :: 64 word) = 1000000000" by simp
  also have "signed_take_bit 63 (sint ttl * 1000000000) = sint ttl * 1000000000"
    using assms by (intro signed_take_bit_int_eq_self) simp_all
  finally show ?thesis .
qed

lemma sample_url_encoded: "base64_RawURLEncoding ''https://sts/?x'' = ''aHR0cHM6Ly9zdHMvP3g''"
  by (simp add: encodeURL_def)

section \<open>Configuration resolution\<close>

lemma resolveRegion_cluster:
  "resolveRegion env p = Inr p1 \<Longrightarrow> ClusterName p1 = ClusterName p \<and> ClusterId p1 = ClusterId p"
  by (auto simp: resolveRegion_def split: if_splits)

lemma resolveProfile_cluster:
  "ClusterName (resolveProfile env p) = ClusterName p"
  "ClusterId (resolveProfile env p) = ClusterId p"
  by (simp_all add: resolveProfile_def)

lemma resolveSTSRegionalEndpoint_cluster:
  "ClusterName (resolveSTSRegionalEndpoint env p) = ClusterName p"
  "ClusterId (resolveSTSRegionalEndpoint env p) = ClusterId p"
  by (simp_all add: resolveSTSRegionalEndpoint_def)

text \<open>
  Claim C8. Whatever the environment, resolution of parameters that give both the
  cluster name and the cluster identifier fails, resolution of parameters that give
  neither fails, each with the error of lines 116 and 119, and parameters that
  resolution accepts carry exactly one of the two, unchanged.
\<close>

theorem C8_cluster_name_xor_id:
  "(ClusterName p \<noteq> '''' \<and> ClusterId p \<noteq> '''' \<longrightarrow>
      PreRunE env p = Inl (Err ''--cluster-name and --cluster-id are mutually exclusive''))
   \<and> (ClusterName p = '''' \<and> ClusterId p = '''' \<longrightarrow>
      PreRunE env p = Inl (Err ''either --cluster-name or --cluster-id must be specified''))
   \<and> (\<forall>p'. PreRunE env p = Inr p' \<longrightarrow>
         ClusterName p' = ClusterName p \<and> ClusterId p' = ClusterId p
         \<and> (ClusterName p' = '''') \<noteq> (ClusterId p' = ''''))"
proof (intro conjI impI allI)
  fix p'
  assume ok: "PreRunE env p = Inr p'"
  have one: "(ClusterName p = '''') \<noteq> (ClusterId p = '''')"
  proof (rule ccontr)
    assume "\<not> (ClusterName p = '''') \<noteq> (ClusterId p = '''')"
    then have "\<exists>e. PreRunE env p = Inl e"
      by (cases "ClusterName p = ''''") (simp_all add: PreRunE_def)
    with ok show False by simp
  qed
  then obtain p1 where p1: "resolveRegion env p = Inr p1"
    and p': "p' = resolveSTSRegionalEndpoint env (resolveProfile env p1)"
    using ok by (auto simp: PreRunE_def split: sum.splits option.splits if_splits)
  from resolveRegion_cluster [OF p1] p'
  have same: "ClusterName p' = ClusterName p \<and> ClusterId p' = ClusterId p"
    by (simp add: resolveProfile_cluster resolveSTSRegionalEndpoint_cluster)
  with one show "ClusterName p' = ClusterName p" and "ClusterId p' = ClusterId p"
    and "(ClusterName p' = '''') \<noteq> (ClusterId p' = '''')" by simp_all
qed (simp_all add: PreRunE_def)

theorem C8_witness:
  "PreRunE sample_env (sample_params\<lparr>ClusterId := ''prod''\<rparr>)
     = Inl (Err ''--cluster-name and --cluster-id are mutually exclusive'')
   \<and> PreRunE sample_env (sample_params\<lparr>ClusterName := ''''\<rparr>)
     = Inl (Err ''either --cluster-name or --cluster-id must be specified'')
   \<and> PreRunE sample_env sample_params = Inr sample_params
   \<and> ClusterName sample_params = ''my-cluster'' \<and> ClusterId sample_params = ''''"
proof -
  have ok: "PreRunE sample_env sample_params = Inr sample_params"
    by (simp add: PreRunE_def resolveRegion_def resolveProfile_def
          resolveSTSRegionalEndpoint_def validateResolved_def sample_params_def sample_env_def)
  have both: "ClusterName (sample_params\<lparr>ClusterId := ''prod''\<rparr>) \<noteq> ''''
              \<and> ClusterId (sample_params\<lparr>ClusterId := ''prod''\<rparr>) \<noteq> ''''"
    by (simp add: sample_params_def)
  have neither: "ClusterName (sample_params\<lparr>ClusterName := ''''\<rparr>) = ''''
              \<and> ClusterId (sample_params\<lparr>ClusterName := ''''\<rparr>) = ''''"
    by (simp add: sample_params_def)
  from C8_cluster_name_xor_id [of "sample_params\<lparr>ClusterId := ''prod''\<rparr>" sample_env] both
  have 1: "PreRunE sample_env (sample_params\<lparr>ClusterId := ''prod''\<rparr>)
     = Inl (Err ''--cluster-name and --cluster-id are mutually exclusive'')" by blast
  from C8_cluster_name_xor_id [of "sample_params\<lparr>ClusterName := ''''\<rparr>" sample_env] neither
  have 2: "PreRunE sample_env (sample_params\<lparr>ClusterName := ''''\<rparr>)
     = Inl (Err ''either --cluster-name or --cluster-id must be specified'')" by blast
  from C8_cluster_name_xor_id [of sample_params sample_env] ok
  have 3: "(ClusterName sample_params = '''') \<noteq> (ClusterId sample_params = '''')" by blast
  have 4: "ClusterName sample_params = ''my-cluster'' \<and> ClusterId sample_params = ''''"
    by (simp add: sample_params_def)
  from 1 2 ok 4 show ?thesis by blast
qed

section \<open>Validity of a cached token\<close>

text \<open>
  Claim C5. For every token record and every reading of the clock, the validity check
  answers true exactly when the expiration timestamp parses and the parsed instant is
  strictly after the clock reading; when the timestamp does not parse, the check
  answers false. The check has no other way to end: it is a total function to the
  Booleans.
\<close>

theorem C5_isTokenValid:
  "isTokenValid env token =
     (\<exists>expiration. time_Parse_RFC3339 env (ExpirationTimestamp (Status token)) = Inr expiration
                   \<and> time_Now_273 env < expiration)
   \<and> ((\<exists>err. time_Parse_RFC3339 env (ExpirationTimestamp (Status token)) = Inl err) \<longrightarrow>
        \<not> isTokenValid env token)"
  by (auto simp: isTokenValid_def split: sum.splits)

theorem C5_witness:
  "isTokenValid sample_env sample_token
   \<and> \<not> isTokenValid (sample_env\<lparr>time_Now_273 := 1900000000000\<rparr>) sample_token
   \<and> time_Parse_RFC3339 sample_env ''yesterday'' = Inl (Err ''cannot parse'')
   \<and> \<not> isTokenValid sample_env
         (sample_token\<lparr>Status := (Status sample_token)\<lparr>ExpirationTimestamp := ''yesterday''\<rparr>\<rparr>)"
proof -
  have parse: "time_Parse_RFC3339 sample_env (ExpirationTimestamp (Status sample_token))
                 = Inr 1900000000000"
    by (simp add: sample_env_def sample_token_def)
  have now: "time_Now_273 sample_env = 1000000000000"
    by (simp add: sample_env_def)
  have bad: "time_Parse_RFC3339 sample_env ''yesterday'' = Inl (Err ''cannot parse'')"
    by (simp add: sample_env_def)
  from C5_isTokenValid [of sample_env sample_token] parse now
  have 1: "isTokenValid sample_env sample_token" by simp
  from C5_isTokenValid [of "sample_env\<lparr>time_Now_273 := 1900000000000\<rparr>" sample_token] parse
  have 2: "\<not> isTokenValid (sample_env\<lparr>time_Now_273 := 1900000000000\<rparr>) sample_token"
    by simp
  from C5_isTokenValid [of sample_env
         "sample_token\<lparr>Status := (Status sample_token)\<lparr>ExpirationTimestamp := ''yesterday''\<rparr>\<rparr>"] bad
  have 3: "\<not> isTokenValid sample_env
         (sample_token\<lparr>Status := (Status sample_token)\<lparr>ExpirationTimestamp := ''yesterday''\<rparr>\<rparr>)"
    by simp
  from 1 2 bad 3 show ?thesis by blast
qed

section \<open>The token generator\<close>

text \<open>
  Claim C9. Whenever the presign request succeeds with a URL, the generator returns
  the marker \<^verbatim>\<open>k8s-aws-v1.\<close> followed by the unpadded base64url encoding of the URL:
  the trimming of line 407 removes nothing, the token starts with the marker and holds
  no \<^verbatim>\<open>=\<close>.
\<close>

theorem C9_token_format:
  assumes "sts_PresignGetCallerIdentity env cfg
             [(''x-k8s-aws-id'', clusterName), (''X-Amz-Expires'', ''60'')] = Inr url"
  shows "(\<exists>expiration.
           generateEKSToken env cfg clusterName ttl
             = ([], Return (Inr (''k8s-aws-v1.'' @ base64_RawURLEncoding url, expiration))))
       \<and> take 11 (''k8s-aws-v1.'' @ base64_RawURLEncoding url) = ''k8s-aws-v1.''
       \<and> CHR ''='' \<notin> set (''k8s-aws-v1.'' @ base64_RawURLEncoding url)"
proof -
  have enc: "CHR ''='' \<notin> set (base64_RawURLEncoding url)"
    using base64_alphabet [of url] pad_not_in_encodeURL by blast
  then have no_pad: "CHR ''='' \<notin> set (''k8s-aws-v1.'' @ base64_RawURLEncoding url)"
    by simp
  then have "strings_TrimRight (''k8s-aws-v1.'' @ base64_RawURLEncoding url) ''=''
               = ''k8s-aws-v1.'' @ base64_RawURLEncoding url"
    by (intro TrimRight_unchanged) simp
  with assms have "\<exists>expiration.
           generateEKSToken env cfg clusterName ttl
             = ([], Return (Inr (''k8s-aws-v1.'' @ base64_RawURLEncoding url, expiration)))"
    by (simp add: generateEKSToken_def Itoa_presignExpires Let_def)
  with no_pad show ?thesis by simp
qed

theorem C9_witness:
  "sts_PresignGetCallerIdentity sample_env ()
      [(''x-k8s-aws-id'', ''my-cluster''), (''X-Amz-Expires'', ''60'')] = Inr ''https://sts/?x''
   \<and> fst (generateEKSToken sample_env () ''my-cluster'' 900) = []
   \<and> (\<exists>expiration. snd (generateEKSToken sample_env () ''my-cluster'' 900)
      = Return (Inr (''k8s-aws-v1.aHR0cHM6Ly9zdHMvP3g'', expiration)))
   \<and> CHR ''='' \<notin> set ''k8s-aws-v1.aHR0cHM6Ly9zdHMvP3g''"
proof -
  have presign: "sts_PresignGetCallerIdentity sample_env ()
      [(''x-k8s-aws-id'', ''my-cluster''), (''X-Amz-Expires'', ''60'')] = Inr ''https://sts/?x''"
    by (simp add: sample_env_def)
  from C9_token_format [OF presign, of 900, unfolded sample_url_encoded] show ?thesis
    using presign by auto
qed

text \<open>
  Within the range of \<^verbatim>\<open>time.Duration\<close> the expiration is the clock reading of
  line 404 plus the requested seconds, whatever URL the presigner returned for its
  60-second window.
\<close>

lemma generateEKSToken_expiration_in_range:
  assumes "sts_PresignGetCallerIdentity env cfg
             [(''x-k8s-aws-id'', clusterName), (''X-Amz-Expires'', ''60'')] = Inr url"
    and "- 9223372036 \<le> sint ttl" and "sint ttl \<le> 9223372036"
  shows "\<exists>token. generateEKSToken env cfg clusterName ttl
           = ([], Return (Inr (token, time_Now_404 env + sint ttl * 1000000000)))"
  using assms by (simp add: generateEKSToken_def Itoa_presignExpires Let_def sint_mult_in_range)

text \<open>
  Claim C4. The claim fails for a time-to-live of 9223372037 seconds, the first whose
  count of nanoseconds does not fit \<^verbatim>\<open>time.Duration\<close>: the product of line 404 wraps
  around and the expiration is the clock reading minus 9223372036.709551616 seconds,
  some 292 years in the past, instead of the clock reading plus 9223372037 seconds.
\<close>

theorem C4_ttl_overflow:
  assumes "sts_PresignGetCallerIdentity env cfg
             [(''x-k8s-aws-id'', clusterName), (''X-Amz-Expires'', ''60'')] = Inr url"
  shows "\<exists>token. generateEKSToken env cfg clusterName 9223372037
           = ([], Return (Inr (token, time_Now_404 env - 9223372036709551616)))"
  using assms by (simp add: generateEKSToken_def Itoa_presignExpires Let_def)

theorem C4_witness:
  "sts_PresignGetCallerIdentity sample_env ()
      [(''x-k8s-aws-id'', ''my-cluster''), (''X-Amz-Expires'', ''60'')] = Inr ''https://sts/?x''
   \<and> (\<exists>token. snd (generateEKSToken sample_env () ''my-cluster'' 9223372037)
      = Return (Inr (token, - 9223371036709551616)))
   \<and> time_Now_404 sample_env + 9223372037 * 1000000000 = 9223373037000000000"
proof -
  have presign: "sts_PresignGetCallerIdentity sample_env ()
      [(''x-k8s-aws-id'', ''my-cluster''), (''X-Amz-Expires'', ''60'')] = Inr ''https://sts/?x''"
    by (simp add: sample_env_def)
  have now: "time_Now_404 sample_env = 1000000000000"
    by (simp add: sample_env_def)
  from C4_ttl_overflow [OF presign] obtain token where
    "generateEKSToken sample_env () ''my-cluster'' 9223372037
            = ([], Return (Inr (token, time_Now_404 sample_env - 9223372036709551616)))"
    by blast
  with presign now show ?thesis by simp
qed

text \<open>The error result of the generator is \<^verbatim>\<open>nil\<close> on every return.\<close>

lemma generateEKSToken_never_returns_error:
  "generateEKSToken env cfg clusterName ttl \<noteq> (es, Return (Inl err))"
  by (simp add: generateEKSToken_def Let_def split: sum.split)

text \<open>
  The other failures of \<^verbatim>\<open>fetchNewToken\<close> are returned to the caller, each wrapped
  with a prefix: here the failure to describe the cluster.
\<close>

lemma fetchNewToken_describe_failure_is_returned:
  assumes "loadAWSConfig env params = (es, Return (Inr cfg))"
    and "eks_DescribeCluster env cfg
           (if ClusterId params \<noteq> '''' then ClusterId params else ClusterName params) = Some err"
  shows "fetchNewToken env params
           = (es, Return (Inl (Wrap ''failed to describe cluster: '' err)))"
  using assms by (simp add: fetchNewToken_def ret_def)

lemma fetchNewToken_load_failure_is_returned:
  assumes "loadAWSConfig env params = (es, Return (Inl err))"
  shows "fetchNewToken env params
           = (es, Return (Inl (Wrap ''failed to load AWS config: '' err)))"
  using assms by (simp add: fetchNewToken_def ret_def)

text \<open>
  Claim C1. The claim fails on the code: when the configuration loads, the cluster is
  found and the presign request fails, the generator writes the cause to the error
  stream and ends the process with status 1 at line 397. It returns no error, so
  the wrapping of lines 320-322 is never reached and \<^verbatim>\<open>fetchNewToken\<close> does not
  return at all.
\<close>

theorem C1_presign_failure_exits:
  assumes load: "loadAWSConfig env params = (es, Return (Inr cfg))"
    and name: "clusterName = (if ClusterId params \<noteq> '''' then ClusterId params
                              else ClusterName params)"
    and describe: "eks_DescribeCluster env cfg clusterName = None"
    and presign: "sts_PresignGetCallerIdentity env cfg
             [(''x-k8s-aws-id'', clusterName), (''X-Amz-Expires'', ''60'')] = Inl err"
  shows "generateEKSToken env cfg clusterName (TTL params)
           = ([Stderr (''failed to presign GetCallerIdentity: '' @ error_msg err @ ''\<newline>'')], Exit 1)
         \<and> fetchNewToken env params
           = (es @ [Stderr (''failed to presign GetCallerIdentity: '' @ error_msg err @ ''\<newline>'')],
              Exit 1)"
proof -
  have gen: "generateEKSToken env cfg clusterName (TTL params)
           = ([Stderr (''failed to presign GetCallerIdentity: '' @ error_msg err @ ''\<newline>'')], Exit 1)"
    using presign by (simp add: generateEKSToken_def Itoa_presignExpires)
  have "fetchNewToken env params
           = (es @ [Stderr (''failed to presign GetCallerIdentity: '' @ error_msg err @ ''\<newline>'')],
              Exit 1)"
    using load describe gen unfolding name
    by (simp add: fetchNewToken_def Let_def)
  with gen show ?thesis by simp
qed

theorem C1_witness:
  "loadAWSConfig sample_env_no_credentials sample_params
     = ([Setenv ''AWS_STS_REGIONAL_ENDPOINTS'' ''regional''], Return (Inr ()))
   \<and> eks_DescribeCluster sample_env_no_credentials () ''my-cluster'' = None
   \<and> sts_PresignGetCallerIdentity sample_env_no_credentials ()
        [(''x-k8s-aws-id'', ''my-cluster''), (''X-Amz-Expires'', ''60'')]
      = Inl (Err ''no credentials'')
   \<and> fetchNewToken sample_env_no_credentials sample_params
      = ([Setenv ''AWS_STS_REGIONAL_ENDPOINTS'' ''regional'',
          Stderr ''failed to presign GetCallerIdentity: no credentials\<newline>''], Exit 1)"
proof -
  have load: "loadAWSConfig sample_env_no_credentials sample_params
     = ([Setenv ''AWS_STS_REGIONAL_ENDPOINTS'' ''regional''], Return (Inr ()))"
    by (simp add: loadAWSConfig_def sample_env_no_credentials_def sample_env_def sample_params_def)
  have name: "''my-cluster'' = (if ClusterId sample_params \<noteq> '''' then ClusterId sample_params
                              else ClusterName sample_params)"
    by (simp add: sample_params_def)
  have describe: "eks_DescribeCluster sample_env_no_credentials () ''my-cluster'' = None"
    by (simp add: sample_env_no_credentials_def sample_env_def)
  have presign: "sts_PresignGetCallerIdentity sample_env_no_credentials ()
        [(''x-k8s-aws-id'', ''my-cluster''), (''X-Amz-Expires'', ''60'')]
      = Inl (Err ''no credentials'')"
    by (simp add: sample_env_no_credentials_def sample_env_def)
  from C1_presign_failure_exits [OF load name describe presign] load describe presign
  show ?thesis by simp
qed

section \<open>The cache file path\<close>

lemma sample_default_cacheDir:
  "CacheDir p = '''' \<Longrightarrow> cacheDir sample_env p = Inr ''/home/u/.kube/cache/tokens''"
  by (simp add: cacheDir_def sample_env_def filepath_Join_def filepath_Clean_def clean_step_def)

text \<open>
  Claim C10, as amended. For a cluster identifier of one to three bytes, deriving the
  cache file path never returns a path. When looking up the home directory fails (no
  cache directory is given), the derivation returns that error, wrapped, at line 219;
  this is the only way in which resolving the cache directory fails. When the
  directory is resolved and creating it fails, the derivation returns that error,
  wrapped, at line 225. When the directory is resolved and created, the derivation
  evaluates the slice of line 233 and panics.
\<close>

theorem C10_short_cluster_id_panics:
  assumes nonempty: "ClusterId p \<noteq> ''''" and short: "length (ClusterId p) < 4"
  shows "(\<forall>e. CacheDir p = '''' \<and> os_UserHomeDir env = Inl e \<longrightarrow>
            getCacheFilePath env p
              = ([], Return (Inl (Wrap ''failed to get user home directory: '' e))))
         \<and> (\<forall>err. cacheDir env p = Inl err \<longrightarrow>
               CacheDir p = ''''
               \<and> (\<exists>e. os_UserHomeDir env = Inl e
                       \<and> err = Wrap ''failed to get user home directory: '' e))
         \<and> (\<forall>dir err. cacheDir env p = Inr dir \<and> os_MkdirAll env dir mode_0755 = Some err \<longrightarrow>
               getCacheFilePath env p
                 = ([Mkdir dir mode_0755],
                    Return (Inl (Wrap ''failed to create cache directory: '' err))))
         \<and> (\<forall>dir. cacheDir env p = Inr dir \<and> os_MkdirAll env dir mode_0755 = None \<longrightarrow>
               getCacheFilePath env p
                 = ([Mkdir dir mode_0755],
                    Panic (''runtime error: slice bounds out of range [:4] with length ''
                           @ strconv_Itoa (int (length (ClusterId p))))))
         \<and> (\<forall>es path. getCacheFilePath env p \<noteq> (es, Return (Inr path)))"
proof -
  have ident: "clusterIdentifier p
                 = Panic (''runtime error: slice bounds out of range [:4] with length ''
                          @ strconv_Itoa (int (length (ClusterId p))))"
    using nonempty short
    by (simp add: clusterIdentifier_def go_slice_def strconv_Itoa_def decimal.simps)
  have home: "getCacheFilePath env p
              = ([], Return (Inl (Wrap ''failed to get user home directory: '' e)))"
    if "CacheDir p = ''''" "os_UserHomeDir env = Inl e" for e
    using that by (simp add: getCacheFilePath_def cacheDir_def)
  have only: "CacheDir p = ''''
              \<and> (\<exists>e. os_UserHomeDir env = Inl e
                      \<and> err = Wrap ''failed to get user home directory: '' e)"
    if "cacheDir env p = Inl err" for err
    using that by (auto simp: cacheDir_def split: if_splits sum.splits)
  have mkdir: "getCacheFilePath env p
                 = ([Mkdir dir mode_0755],
                    Return (Inl (Wrap ''failed to create cache directory: '' err)))"
    if "cacheDir env p = Inr dir" "os_MkdirAll env dir mode_0755 = Some err" for dir err
    using that by (simp add: getCacheFilePath_def)
  have slice: "getCacheFilePath env p
                 = ([Mkdir dir mode_0755],
                    Panic (''runtime error: slice bounds out of range [:4] with length ''
                           @ strconv_Itoa (int (length (ClusterId p)))))"
    if "cacheDir env p = Inr dir" "os_MkdirAll env dir mode_0755 = None" for dir
    using that by (simp add: getCacheFilePath_def ident)
  have no_path: "getCacheFilePath env p \<noteq> (es, Return (Inr path))" for es path
    by (auto simp: getCacheFilePath_def ident split: sum.splits option.splits)
  from home only mkdir slice no_path show ?thesis by blast
qed

theorem C10_witness:
  "ClusterId (sample_params\<lparr>ClusterName := '''', ClusterId := ''ab''\<rparr>) \<noteq> ''''
   \<and> length (ClusterId (sample_params\<lparr>ClusterName := '''', ClusterId := ''ab''\<rparr>)) < 4
   \<and> cacheDir sample_env (sample_params\<lparr>ClusterName := '''', ClusterId := ''ab''\<rparr>)
       = Inr ''/home/u/.kube/cache/tokens''
   \<and> os_MkdirAll sample_env ''/home/u/.kube/cache/tokens'' mode_0755 = None
   \<and> getCacheFilePath sample_env (sample_params\<lparr>ClusterName := '''', ClusterId := ''ab''\<rparr>)
       = ([Mkdir ''/home/u/.kube/cache/tokens'' mode_0755],
          Panic ''runtime error: slice bounds out of range [:4] with length 2'')
   \<and> CacheDir (sample_params\<lparr>ClusterName := '''', ClusterId := ''ab''\<rparr>) = ''''
   \<and> os_UserHomeDir (sample_env\<lparr>os_UserHomeDir := Inl (Err ''$HOME is not defined'')\<rparr>)
       = Inl (Err ''$HOME is not defined'')
   \<and> getCacheFilePath (sample_env\<lparr>os_UserHomeDir := Inl (Err ''$HOME is not defined'')\<rparr>)
        (sample_params\<lparr>ClusterName := '''', ClusterId := ''ab''\<rparr>)
       = ([], Return (Inl (Wrap ''failed to get user home directory: ''
                                (Err ''$HOME is not defined''))))
   \<and> cacheDir (sample_env\<lparr>os_MkdirAll := (\<lambda>path mode. Some (Err ''read-only file system''))\<rparr>)
        (sample_params\<lparr>ClusterName := '''', ClusterId := ''ab''\<rparr>)
       = Inr ''/home/u/.kube/cache/tokens''
   \<and> getCacheFilePath
        (sample_env\<lparr>os_MkdirAll := (\<lambda>path mode. Some (Err ''read-only file system''))\<rparr>)
        (sample_params\<lparr>ClusterName := '''', ClusterId := ''ab''\<rparr>)
       = ([Mkdir ''/home/u/.kube/cache/tokens'' mode_0755],
          Return (Inl (Wrap ''failed to create cache directory: ''
                         (Err ''read-only file system''))))"
proof -
  let ?p = "sample_params\<lparr>ClusterName := '''', ClusterId := ''ab''\<rparr>"
  let ?no_home = "sample_env\<lparr>os_UserHomeDir := Inl (Err ''$HOME is not defined'')\<rparr>"
  let ?no_mkdir = "sample_env\<lparr>os_MkdirAll := (\<lambda>path mode. Some (Err ''read-only file system''))\<rparr>"
  have nonempty: "ClusterId ?p \<noteq> ''''" and short: "length (ClusterId ?p) < 4"
    by simp_all
  have root: "CacheDir ?p = ''''"
    by (simp add: sample_params_def)
  have dir: "cacheDir sample_env ?p = Inr ''/home/u/.kube/cache/tokens''"
    using root by (rule sample_default_cacheDir)
  have mkdir: "os_MkdirAll sample_env ''/home/u/.kube/cache/tokens'' mode_0755 = None"
    by (simp add: sample_env_def)
  have len: "strconv_Itoa (int (length (ClusterId ?p))) = ''2''"
    by (simp add: strconv_Itoa_def decimal.simps)
  from C10_short_cluster_id_panics [OF nonempty short, of sample_env] dir mkdir
  have "getCacheFilePath sample_env ?p
       = ([Mkdir ''/home/u/.kube/cache/tokens'' mode_0755],
          Panic (''runtime error: slice bounds out of range [:4] with length ''
                 @ strconv_Itoa (int (length (ClusterId ?p)))))"
    by blast
  then have panic: "getCacheFilePath sample_env ?p
       = ([Mkdir ''/home/u/.kube/cache/tokens'' mode_0755],
          Panic ''runtime error: slice bounds out of range [:4] with length 2'')"
    unfolding len by simp
  have home: "os_UserHomeDir ?no_home = Inl (Err ''$HOME is not defined'')"
    by simp
  from C10_short_cluster_id_panics [OF nonempty short, of ?no_home] root home
  have no_home: "getCacheFilePath ?no_home ?p
       = ([], Return (Inl (Wrap ''failed to get user home directory: ''
                                (Err ''$HOME is not defined''))))"
    by blast
  have "cacheDir ?no_mkdir ?p = cacheDir sample_env ?p"
    by (simp add: cacheDir_def expandHomeDir_def)
  with dir have dir': "cacheDir ?no_mkdir ?p = Inr ''/home/u/.kube/cache/tokens''"
    by simp
  have fails: "os_MkdirAll ?no_mkdir ''/home/u/.kube/cache/tokens'' mode_0755
                 = Some (Err ''read-only file system'')"
    by simp
  from C10_short_cluster_id_panics [OF nonempty short, of ?no_mkdir] dir' fails
  have no_mkdir: "getCacheFilePath ?no_mkdir ?p
       = ([Mkdir ''/home/u/.kube/cache/tokens'' mode_0755],
          Return (Inl (Wrap ''failed to create cache directory: ''
                         (Err ''read-only file system''))))"
    by blast
  from nonempty short dir mkdir panic root home no_home dir' no_mkdir
  show ?thesis by blast
qed

text \<open>
  The claim as stated fails in two ways. Where the directory cannot be created, the
  derivation of a two-byte identifier returns the error of line 225 and the slice is
  never evaluated. And the bound of line 233 counts bytes, not characters: an
  identifier of two characters that take two bytes each in UTF-8 passes the slice,
  and a path is derived.
\<close>

theorem C10_counterexample:
  "ClusterId (sample_params\<lparr>ClusterName := '''', ClusterId := ''ab''\<rparr>) \<noteq> ''''
   \<and> length (ClusterId (sample_params\<lparr>ClusterName := '''', ClusterId := ''ab''\<rparr>)) < 4
   \<and> getCacheFilePath (sample_env\<lparr>os_MkdirAll := (\<lambda>path mode. Some (Err ''permission denied''))\<rparr>)
        (sample_params\<lparr>ClusterName := '''', ClusterId := ''ab''\<rparr>)
       = ([Mkdir ''/home/u/.kube/cache/tokens'' mode_0755],
          Return (Inl (Wrap ''failed to create cache directory: '' (Err ''permission denied''))))
   \<and> length [CHR 0xC3, CHR 0xA9, CHR 0xC3, CHR 0xA9] = 4
   \<and> getCacheFilePath sample_env
        (sample_params\<lparr>ClusterName := '''', ClusterId := [CHR 0xC3, CHR 0xA9, CHR 0xC3, CHR 0xA9]\<rparr>)
       = ([Mkdir ''/home/u/.kube/cache/tokens'' mode_0755],
          Return (Inr (''/home/u/.kube/cache/tokens/''
                       @ [CHR 0xC3, CHR 0xA9, CHR 0xC3, CHR 0xA9] @ ''_us-west-2.json'')))"
proof -
  let ?p = "sample_params\<lparr>ClusterName := '''', ClusterId := ''ab''\<rparr>"
  let ?env = "sample_env\<lparr>os_MkdirAll := (\<lambda>path mode. Some (Err ''permission denied''))\<rparr>"
  let ?q = "sample_params\<lparr>ClusterName := '''', ClusterId := [CHR 0xC3, CHR 0xA9, CHR 0xC3, CHR 0xA9]\<rparr>"
  have "cacheDir ?env ?p = cacheDir sample_env ?p"
    by (simp add: cacheDir_def expandHomeDir_def)
  then have dir: "cacheDir ?env ?p = Inr ''/home/u/.kube/cache/tokens''"
    by (simp add: sample_default_cacheDir sample_params_def)
  have error: "getCacheFilePath ?env ?p
       = ([Mkdir ''/home/u/.kube/cache/tokens'' mode_0755],
          Return (Inl (Wrap ''failed to create cache directory: '' (Err ''permission denied''))))"
    by (simp add: getCacheFilePath_def dir)
  have dir_q: "cacheDir sample_env ?q = Inr ''/home/u/.kube/cache/tokens''"
    by (rule sample_default_cacheDir) (simp add: sample_params_def)
  have ident: "clusterIdentifier ?q = Return [CHR 0xC3, CHR 0xA9, CHR 0xC3, CHR 0xA9]"
    by (simp add: clusterIdentifier_def go_slice_def)
  have region: "Region ?q = ''us-west-2''"
    by (simp add: sample_params_def)
  have joined: "filepath_Join [''/home/u/.kube/cache/tokens'',
                               [CHR 0xC3, CHR 0xA9, CHR 0xC3, CHR 0xA9] @ ''_us-west-2.json'']
                = ''/home/u/.kube/cache/tokens/''
                  @ [CHR 0xC3, CHR 0xA9, CHR 0xC3, CHR 0xA9] @ ''_us-west-2.json''"
    by (simp add: filepath_Join_def filepath_Clean_def clean_step_def)
  have mkdir: "os_MkdirAll sample_env ''/home/u/.kube/cache/tokens'' mode_0755 = None"
    by (simp add: sample_env_def)
  have path: "getCacheFilePath sample_env ?q
       = ([Mkdir ''/home/u/.kube/cache/tokens'' mode_0755],
          Return (Inr (''/home/u/.kube/cache/tokens/''
                       @ [CHR 0xC3, CHR 0xA9, CHR 0xC3, CHR 0xA9] @ ''_us-west-2.json'')))"
    using joined by (simp add: getCacheFilePath_def dir_q ident region mkdir)
  from error path show ?thesis by simp
qed

section \<open>The effects of an invocation\<close>

lemma and_then_effect:
  "e \<in> set (fst (and_then m f)) \<Longrightarrow>
   e \<in> set (fst m) \<or> (\<exists>a. snd m = Return a \<and> e \<in> set (fst (f a)))"
  by (cases m; cases "snd m") auto

lemma getCacheFilePath_effect:
  "e \<in> set (fst (getCacheFilePath env params)) \<Longrightarrow> \<exists>dir. e = Mkdir dir mode_0755"
  by (auto simp: getCacheFilePath_def split: sum.splits option.splits outcome.splits)

lemma writeCachedToken_effect:
  "e \<in> set (fst (writeCachedToken env cacheFile token)) \<Longrightarrow>
   \<exists>data. e = Write cacheFile data mode_0600 \<and> json_MarshalIndent env token = Inr data"
  by (auto simp: writeCachedToken_def split: sum.splits)

lemma loadAWSConfig_effect:
  "e \<in> set (fst (loadAWSConfig env params)) \<Longrightarrow> \<exists>name v. e = Setenv name v"
  by (auto simp: loadAWSConfig_def Let_def split: sum.splits if_splits)

lemma generateEKSToken_effect:
  "e \<in> set (fst (generateEKSToken env cfg clusterName ttl)) \<Longrightarrow> \<exists>line. e = Stderr line"
  by (auto simp: generateEKSToken_def Let_def split: sum.splits)

lemma outputToken_effect:
  "e \<in> set (fst (outputToken env token)) \<Longrightarrow>
   \<exists>json. e = Stdout (json @ ''\<newline>'') \<and> json_Marshal env token = Inr json"
  by (auto simp: outputToken_def split: sum.splits)

lemma fetchNewToken_effect:
  "e \<in> set (fst (fetchNewToken env params)) \<Longrightarrow>
   (\<exists>name v. e = Setenv name v) \<or> (\<exists>line. e = Stderr line)"
  unfolding fetchNewToken_def
  by (auto dest!: and_then_effect loadAWSConfig_effect generateEKSToken_effect
           simp: ret_def Let_def split: sum.splits option.splits prod.splits)

text \<open>
  The effects of caching and writing out a token: directories requested with mode
  0755, the serialisation of the cleared record written with mode 0600, a warning, and
  the serialisation of the token itself on standard output.
\<close>

lemma getEKSToken_cache_and_output_effect:
  assumes "e \<in> set (fst (getEKSToken_cache_and_output env params token))"
  shows "(\<exists>dir. e = Mkdir dir mode_0755)
       \<or> (\<exists>path data. e = Write path data mode_0600
             \<and> json_MarshalIndent env (tokenToCache token) = Inr data)
       \<or> (\<exists>line. e = Stderr line)
       \<or> (\<exists>json. e = Stdout (json @ ''\<newline>'') \<and> json_Marshal env token = Inr json)"
  using assms unfolding getEKSToken_cache_and_output_def
  by (auto dest!: and_then_effect getCacheFilePath_effect writeCachedToken_effect
                  outputToken_effect
           simp: ret_def split: sum.splits option.splits if_splits)

text \<open>
  The fetching path has the effects of fetching and, when a token was fetched and
  augmented, those of caching and writing out that token.
\<close>

lemma getEKSToken_fetch_effects:
  "(\<forall>e \<in> set (fst (getEKSToken_fetch env params)).
      (\<exists>name v. e = Setenv name v) \<or> (\<exists>line. e = Stderr line))
   \<or> (\<exists>token. \<forall>e \<in> set (fst (getEKSToken_fetch env params)).
      (\<exists>name v. e = Setenv name v) \<or> (\<exists>line. e = Stderr line)
      \<or> e \<in> set (fst (getEKSToken_cache_and_output env params token)))"
proof -
  obtain es r where fetch: "fetchNewToken env params = (es, r)"
    by (cases "fetchNewToken env params")
  have es: "(\<exists>name v. e = Setenv name v) \<or> (\<exists>line. e = Stderr line)" if "e \<in> set es" for e
    using that fetchNewToken_effect [of e env params] by (simp add: fetch)
  show ?thesis
  proof (cases r)
    case (Return fetched)
    show ?thesis
    proof (cases fetched)
      case (Inl err)
      with Return fetch es show ?thesis
        by (auto simp: getEKSToken_fetch_def ret_def)
    next
      case (Inr token0)
      show ?thesis
      proof (cases "if ClientCertFile params \<noteq> '''' \<or> ClientKeyFile params \<noteq> ''''
                    then addClientCertificates env token0 params else Inr token0")
        case (Inl err)
        with Return \<open>fetched = Inr token0\<close> fetch es show ?thesis
          by (auto simp: getEKSToken_fetch_def ret_def)
      next
        case augmented: (Inr token)
        have "fst (getEKSToken_fetch env params)
                = es @ fst (getEKSToken_cache_and_output env params token)"
          using Return \<open>fetched = Inr token0\<close> fetch augmented
          by (simp add: getEKSToken_fetch_def)
        with es show ?thesis by (intro disjI2 exI [of _ token]) auto
      qed
    qed
  next
    case (Exit code)
    with fetch es show ?thesis by (auto simp: getEKSToken_fetch_def)
  next
    case (Panic m)
    with fetch es show ?thesis by (auto simp: getEKSToken_fetch_def)
  qed
qed

text \<open>
  An invocation either ends with the derivation of the cache path or the output of a
  valid cached token, or it takes the fetching path; before that it only asks for the
  cache directory.
\<close>

lemma getEKSToken_effects:
  "(\<exists>token. \<forall>e \<in> set (fst (getEKSToken env params)).
       (\<exists>dir. e = Mkdir dir mode_0755) \<or> e \<in> set (fst (outputToken env token)))
   \<or> (\<forall>e \<in> set (fst (getEKSToken env params)).
       (\<exists>dir. e = Mkdir dir mode_0755) \<or> e \<in> set (fst (getEKSToken_fetch env params)))"
proof (cases "IgnoreCache params")
  case True
  then show ?thesis by (simp add: getEKSToken_def)
next
  case False
  obtain es r where derive: "getCacheFilePath env params = (es, r)"
    by (cases "getCacheFilePath env params")
  have es: "\<exists>dir. e = Mkdir dir mode_0755" if "e \<in> set es" for e
    using that getCacheFilePath_effect [of e env params] by (simp add: derive)
  show ?thesis
  proof (cases r)
    case (Return derived)
    show ?thesis
    proof (cases derived)
      case (Inl err)
      with Return derive es False show ?thesis
        by (auto simp: getEKSToken_def ret_def)
    next
      case (Inr cacheFile)
      show ?thesis
      proof (cases "readCachedToken env cacheFile")
        case (Inl err)
        with Return \<open>derived = Inr cacheFile\<close> derive es False show ?thesis
          by (auto simp: getEKSToken_def)
      next
        case read: (Inr cached)
        show ?thesis
        proof (cases "isTokenValid env cached")
          case False
          with read Return \<open>derived = Inr cacheFile\<close> derive es \<open>\<not> IgnoreCache params\<close>
          show ?thesis by (auto simp: getEKSToken_def)
        next
          case True
          show ?thesis
          proof (cases "if ClientCertFile params \<noteq> '''' \<or> ClientKeyFile params \<noteq> ''''
                        then addClientCertificates env cached params else Inr cached")
            case (Inl err)
            with True read Return \<open>derived = Inr cacheFile\<close> derive es \<open>\<not> IgnoreCache params\<close>
            show ?thesis by (auto simp: getEKSToken_def ret_def)
          next
            case (Inr token)
            with True read Return \<open>derived = Inr cacheFile\<close> derive \<open>\<not> IgnoreCache params\<close>
            have "fst (getEKSToken env params) = es @ fst (outputToken env token)"
              by (simp add: getEKSToken_def)
            with es show ?thesis by (intro disjI1 exI [of _ token]) auto
          qed
        qed
      qed
    qed
  next
    case (Exit code)
    with derive es False show ?thesis by (auto simp: getEKSToken_def)
  next
    case (Panic m)
    with derive es False show ?thesis by (auto simp: getEKSToken_def)
  qed
qed

text \<open>What a directory request and a file write of an invocation can be.\<close>

lemma getEKSToken_Mkdir:
  assumes "Mkdir dir mode \<in> set (fst (getEKSToken env params))"
  shows "mode = mode_0755"
proof -
  have tail: "mode = mode_0755"
    if "Mkdir dir mode \<in> set (fst (getEKSToken_fetch env params))"
    using that getEKSToken_fetch_effects [of env params]
    by (auto dest!: getEKSToken_cache_and_output_effect)
  from getEKSToken_effects [of env params] assms show ?thesis
    by (auto dest!: outputToken_effect tail)
qed

lemma getEKSToken_Write:
  assumes "Write path data mode \<in> set (fst (getEKSToken env params))"
  shows "Write path data mode \<in> set (fst (getEKSToken_fetch env params))
         \<and> (\<forall>e \<in> set (fst (getEKSToken env params)).
               (\<exists>dir. e = Mkdir dir mode_0755) \<or> e \<in> set (fst (getEKSToken_fetch env params)))"
  using getEKSToken_effects [of env params] assms
  by (auto dest!: outputToken_effect)

lemma getCacheFilePath_in_getEKSToken:
  assumes "\<not> IgnoreCache params" and "e \<in> set (fst (getCacheFilePath env params))"
  shows "e \<in> set (fst (getEKSToken env params))"
proof (cases "getCacheFilePath env params")
  case (Pair es r)
  with assms show ?thesis
    by (cases r) (simp_all add: getEKSToken_def)
qed

section \<open>The sample invocation\<close>

lemma sample_join:
  "filepath_Join [''/home/u/.kube/cache/tokens'', ''my-cluster_us-west-2.json'']
     = ''/home/u/.kube/cache/tokens/my-cluster_us-west-2.json''"
  by (simp add: filepath_Join_def filepath_Clean_def clean_step_def)

lemma sample_getCacheFilePath:
  "getCacheFilePath sample_env sample_params_certs
     = ([Mkdir ''/home/u/.kube/cache/tokens'' mode_0755],
        Return (Inr ''/home/u/.kube/cache/tokens/my-cluster_us-west-2.json''))"
proof -
  have "cacheDir sample_env sample_params_certs = Inr ''/home/u/.kube/cache/tokens''"
    by (rule sample_default_cacheDir) (simp add: sample_params_certs_def sample_params_def)
  moreover have "clusterIdentifier sample_params_certs = Return ''my-cluster''"
    by (simp add: clusterIdentifier_def sample_params_certs_def sample_params_def)
  moreover have "os_MkdirAll sample_env ''/home/u/.kube/cache/tokens'' mode_0755 = None"
    by (simp add: sample_env_def)
  moreover have "Region sample_params_certs = ''us-west-2''"
    by (simp add: sample_params_certs_def sample_params_def)
  ultimately show ?thesis
    using sample_join by (simp add: getCacheFilePath_def)
qed

lemma sample_override_getCacheFilePath:
  "getCacheFilePath sample_env (sample_params\<lparr>CacheDir := ''/tmp/eks-cache''\<rparr>)
     = ([Mkdir ''/tmp/eks-cache'' mode_0755],
        Return (Inr ''/tmp/eks-cache/my-cluster_us-west-2.json''))"
  by (simp add: getCacheFilePath_def cacheDir_def expandHomeDir_def clusterIdentifier_def
        sample_env_def sample_params_def filepath_Join_def filepath_Clean_def clean_step_def)

lemma sample_readCachedToken:
  "readCachedToken sample_env ''/home/u/.kube/cache/tokens/my-cluster_us-west-2.json''
     = Inl (Err ''no such file or directory'')"
  by (simp add: readCachedToken_def sample_env_def)

lemma sample_fetchNewToken:
  "fetchNewToken sample_env sample_params_certs
     = ([Setenv ''AWS_STS_REGIONAL_ENDPOINTS'' ''regional''], Return (Inr sample_fetched))"
  by (simp add: fetchNewToken_def loadAWSConfig_def generateEKSToken_def ret_def Let_def
        Itoa_presignExpires sample_env_def sample_params_certs_def sample_params_def
        defaultTTL_def sample_fetched_def sample_token_def encodeURL_def strings_TrimRight_def)

lemma sample_addClientCertificates:
  "addClientCertificates sample_env sample_fetched sample_params_certs = Inr sample_augmented"
  by (simp add: addClientCertificates_def sample_env_def sample_params_certs_def
        sample_params_def sample_augmented_def)

lemma sample_tokenToCache: "tokenToCache sample_augmented = sample_fetched"
  by (simp add: tokenToCache_def sample_augmented_def sample_fetched_def sample_token_def)

lemma sample_marshal_fetched:
  "sample_marshal sample_fetched
     = ''ExecCredential|client.authentication.k8s.io/v1beta1|1970-01-01T00:31:40Z|k8s-aws-v1.aHR0cHM6Ly9zdHMvP3g||''"
  by (simp add: sample_marshal_def sample_fetched_def sample_token_def)

lemma sample_marshal_augmented:
  "sample_marshal sample_augmented
     = ''ExecCredential|client.authentication.k8s.io/v1beta1|1970-01-01T00:31:40Z|k8s-aws-v1.aHR0cHM6Ly9zdHMvP3g|CERT|KEY''"
  by (simp add: sample_marshal_def sample_augmented_def sample_fetched_def sample_token_def)

lemma sample_getEKSToken:
  "getEKSToken sample_env sample_params_certs
     = ([Mkdir ''/home/u/.kube/cache/tokens'' mode_0755,
         Setenv ''AWS_STS_REGIONAL_ENDPOINTS'' ''regional'',
         Mkdir ''/home/u/.kube/cache/tokens'' mode_0755,
         Write ''/home/u/.kube/cache/tokens/my-cluster_us-west-2.json''
           ''ExecCredential|client.authentication.k8s.io/v1beta1|1970-01-01T00:31:40Z|k8s-aws-v1.aHR0cHM6Ly9zdHMvP3g||''
           mode_0600,
         Stdout ''ExecCredential|client.authentication.k8s.io/v1beta1|1970-01-01T00:31:40Z|k8s-aws-v1.aHR0cHM6Ly9zdHMvP3g|CERT|KEY\<newline>''],
        Return None)"
proof -
  have certs: "ClientCertFile sample_params_certs \<noteq> ''''"
    and cache: "\<not> IgnoreCache sample_params_certs"
    by (simp_all add: sample_params_certs_def sample_params_def)
  have marshal: "json_Marshal sample_env = (\<lambda>t. Inr (sample_marshal t))"
    "json_MarshalIndent sample_env = (\<lambda>t. Inr (sample_marshal t))"
    "os_WriteFile sample_env = (\<lambda>path data mode. None)"
    by (simp_all add: sample_env_def)
  show ?thesis
    using certs cache
    by (simp add: getEKSToken_def getEKSToken_fetch_def getEKSToken_cache_and_output_def
          sample_getCacheFilePath sample_readCachedToken sample_fetchNewToken
          sample_addClientCertificates sample_tokenToCache writeCachedToken_def outputToken_def
          marshal sample_marshal_fetched sample_marshal_augmented ret_def)
qed

text \<open>The functions that never write a file do not depend on what a write answers.\<close>

lemma getCacheFilePath_without_WriteFile:
  "getCacheFilePath (env\<lparr>os_WriteFile := w\<rparr>) params = getCacheFilePath env params"
  by (simp add: getCacheFilePath_def cacheDir_def expandHomeDir_def
           cong: sum.case_cong option.case_cong outcome.case_cong)

lemma readCachedToken_without_WriteFile:
  "readCachedToken (env\<lparr>os_WriteFile := w\<rparr>) cacheFile = readCachedToken env cacheFile"
  by (simp add: readCachedToken_def cong: sum.case_cong)

lemma loadAWSConfig_without_WriteFile:
  "loadAWSConfig (env\<lparr>os_WriteFile := w\<rparr>) params = loadAWSConfig env params"
  by (simp add: loadAWSConfig_def Let_def cong: sum.case_cong if_cong)

lemma generateEKSToken_without_WriteFile:
  "generateEKSToken (env\<lparr>os_WriteFile := w\<rparr>) cfg clusterName ttl
     = generateEKSToken env cfg clusterName ttl"
  by (simp add: generateEKSToken_def Let_def cong: sum.case_cong)

lemma fetchNewToken_without_WriteFile:
  "fetchNewToken (env\<lparr>os_WriteFile := w\<rparr>) params = fetchNewToken env params"
  by (simp add: fetchNewToken_def loadAWSConfig_without_WriteFile
        generateEKSToken_without_WriteFile Let_def
      cong: sum.case_cong option.case_cong prod.case_cong)

lemma addClientCertificates_without_WriteFile:
  "addClientCertificates (env\<lparr>os_WriteFile := w\<rparr>) token params
     = addClientCertificates env token params"
  by (simp add: addClientCertificates_def cong: sum.case_cong)

section \<open>Permissions of the cache directory and the cache file\<close>

lemma owner_only_0600: "owner_only (created_with umask mode_0600)"
  by (simp add: owner_only_def created_with_def group_other_bits_def mode_0600_def
        and.assoc and.commute and.left_commute)

lemma group_other_0755: "group_other_bits (created_with 18 mode_0755) = 45"
  by (simp add: created_with_def group_other_bits_def mode_0755_def)

text \<open>
  Claim C2, as amended. Whatever the cache root, an invocation asks for directories
  with mode 0755 only and writes files with mode 0600 only. A file so created is
  accessible to its owner only under every umask. A directory so created is not: under
  the usual umask 022 it keeps the group's and the others' read and traversal bits
  (octal 055).
\<close>

theorem C2_requested_modes:
  "(\<forall>dir mode. Mkdir dir mode \<in> set (fst (getEKSToken env params)) \<longrightarrow> mode = mode_0755)
   \<and> (\<forall>path data mode. Write path data mode \<in> set (fst (getEKSToken env params)) \<longrightarrow>
         mode = mode_0600 \<and> (\<forall>umask. owner_only (created_with umask mode)))
   \<and> group_other_bits (created_with 18 mode_0755) = 45"
proof (intro conjI allI impI)
  fix dir mode
  assume "Mkdir dir mode \<in> set (fst (getEKSToken env params))"
  then show "mode = mode_0755" by (rule getEKSToken_Mkdir)
next
  fix path data mode
  assume "Write path data mode \<in> set (fst (getEKSToken env params))"
  then have "Write path data mode \<in> set (fst (getEKSToken_fetch env params))"
    by (simp add: getEKSToken_Write)
  with getEKSToken_fetch_effects [of env params] have "mode = mode_0600"
    by (auto dest!: getEKSToken_cache_and_output_effect)
  then show "mode = mode_0600" and "\<And>umask. owner_only (created_with umask mode)"
    by (simp_all add: owner_only_0600)
qed (rule group_other_0755)

theorem C2_witness:
  "Mkdir ''/home/u/.kube/cache/tokens'' mode_0755
     \<in> set (fst (getEKSToken sample_env sample_params_certs))
   \<and> Mkdir ''/tmp/eks-cache'' mode_0755
     \<in> set (fst (getEKSToken sample_env (sample_params\<lparr>CacheDir := ''/tmp/eks-cache''\<rparr>)))
   \<and> Write ''/home/u/.kube/cache/tokens/my-cluster_us-west-2.json''
        ''ExecCredential|client.authentication.k8s.io/v1beta1|1970-01-01T00:31:40Z|k8s-aws-v1.aHR0cHM6Ly9zdHMvP3g||''
        mode_0600
     \<in> set (fst (getEKSToken sample_env sample_params_certs))
   \<and> mode_0755 = 493 \<and> mode_0600 = 384
   \<and> owner_only (created_with 18 mode_0600)"
proof -
  have 1: "Mkdir ''/home/u/.kube/cache/tokens'' mode_0755
     \<in> set (fst (getEKSToken sample_env sample_params_certs))"
    by (simp add: sample_getEKSToken)
  have 2: "Mkdir ''/tmp/eks-cache'' mode_0755
     \<in> set (fst (getEKSToken sample_env (sample_params\<lparr>CacheDir := ''/tmp/eks-cache''\<rparr>)))"
    by (rule getCacheFilePath_in_getEKSToken)
       (simp_all add: sample_override_getCacheFilePath, simp add: sample_params_def)
  have 3: "Write ''/home/u/.kube/cache/tokens/my-cluster_us-west-2.json''
        ''ExecCredential|client.authentication.k8s.io/v1beta1|1970-01-01T00:31:40Z|k8s-aws-v1.aHR0cHM6Ly9zdHMvP3g||''
        mode_0600
     \<in> set (fst (getEKSToken sample_env sample_params_certs))"
    by (simp add: sample_getEKSToken)
  from C2_requested_modes [of sample_env sample_params_certs] 3
  have "owner_only (created_with 18 mode_0600)" by blast
  moreover have "mode_0755 = 493" and "mode_0600 = 384"
    by (simp_all add: mode_0755_def mode_0600_def)
  ultimately show ?thesis using 1 2 3 by blast
qed

text \<open>
  The claim as stated fails for the directory: the sample invocation asks for its
  cache directory with mode 0755, and under umask 022 a directory so created can be
  read and traversed by the group and by others.
\<close>

theorem C2_counterexample:
  "Mkdir ''/home/u/.kube/cache/tokens'' mode_0755
     \<in> set (fst (getEKSToken sample_env sample_params_certs))
   \<and> \<not> owner_only (created_with 18 mode_0755)
   \<and> group_other_traversal_bits (created_with 18 mode_0755) = 9"
proof -
  have "\<not> owner_only (created_with 18 mode_0755)"
    by (simp add: owner_only_def group_other_0755)
  moreover have "group_other_traversal_bits (created_with 18 mode_0755) = 9"
    by (simp add: group_other_traversal_bits_def created_with_def mode_0755_def)
  ultimately show ?thesis
    by (simp add: sample_getEKSToken)
qed

section \<open>What is persisted and what is emitted\<close>

text \<open>
  Claim C6. Whatever an invocation writes to a file is the serialisation of a record
  whose client certificate and client key are empty: the record is the token that the
  same invocation writes to standard output, with these two fields cleared.
\<close>

theorem C6_persisted_record_has_no_certificates:
  assumes "Write path data mode \<in> set (fst (getEKSToken env params))"
  shows "\<exists>token. json_MarshalIndent env (tokenToCache token) = Inr data
           \<and> ClientCertificateData (Status (tokenToCache token)) = ''''
           \<and> ClientKeyData (Status (tokenToCache token)) = ''''
           \<and> (\<forall>line. Stdout line \<in> set (fst (getEKSToken env params)) \<longrightarrow>
                 json_Marshal env token = Inr (butlast line) \<and> line = butlast line @ ''\<newline>'')"
proof -
  from getEKSToken_Write [OF assms]
  have w: "Write path data mode \<in> set (fst (getEKSToken_fetch env params))"
    and rest: "\<And>e. e \<in> set (fst (getEKSToken env params)) \<Longrightarrow>
                 (\<exists>dir. e = Mkdir dir mode_0755) \<or> e \<in> set (fst (getEKSToken_fetch env params))"
    by blast+
  from getEKSToken_fetch_effects [of env params] w obtain token where
    tail: "\<And>e. e \<in> set (fst (getEKSToken_fetch env params)) \<Longrightarrow>
             (\<exists>name v. e = Setenv name v) \<or> (\<exists>line. e = Stderr line)
             \<or> e \<in> set (fst (getEKSToken_cache_and_output env params token))"
    by blast
  from tail [OF w] have persisted: "json_MarshalIndent env (tokenToCache token) = Inr data"
    by (auto dest!: getEKSToken_cache_and_output_effect)
  have emitted: "json_Marshal env token = Inr (butlast line) \<and> line = butlast line @ ''\<newline>''"
    if "Stdout line \<in> set (fst (getEKSToken env params))" for line
  proof -
    from rest [OF that] have "Stdout line \<in> set (fst (getEKSToken_fetch env params))" by simp
    from tail [OF this]
    have "Stdout line \<in> set (fst (getEKSToken_cache_and_output env params token))" by simp
    then show ?thesis
      by (auto dest!: getEKSToken_cache_and_output_effect)
  qed
  from persisted emitted show ?thesis
    by (intro exI [of _ token]) (simp add: tokenToCache_def)
qed

theorem C6_witness:
  "Write ''/home/u/.kube/cache/tokens/my-cluster_us-west-2.json''
        ''ExecCredential|client.authentication.k8s.io/v1beta1|1970-01-01T00:31:40Z|k8s-aws-v1.aHR0cHM6Ly9zdHMvP3g||''
        mode_0600
     \<in> set (fst (getEKSToken sample_env sample_params_certs))
   \<and> Stdout ''ExecCredential|client.authentication.k8s.io/v1beta1|1970-01-01T00:31:40Z|k8s-aws-v1.aHR0cHM6Ly9zdHMvP3g|CERT|KEY\<newline>''
     \<in> set (fst (getEKSToken sample_env sample_params_certs))
   \<and> (\<exists>token. json_MarshalIndent sample_env (tokenToCache token)
          = Inr ''ExecCredential|client.authentication.k8s.io/v1beta1|1970-01-01T00:31:40Z|k8s-aws-v1.aHR0cHM6Ly9zdHMvP3g||''
        \<and> ClientCertificateData (Status (tokenToCache token)) = ''''
        \<and> ClientKeyData (Status (tokenToCache token)) = ''''
        \<and> json_Marshal sample_env token
          = Inr ''ExecCredential|client.authentication.k8s.io/v1beta1|1970-01-01T00:31:40Z|k8s-aws-v1.aHR0cHM6Ly9zdHMvP3g|CERT|KEY'')"
proof -
  have w: "Write ''/home/u/.kube/cache/tokens/my-cluster_us-west-2.json''
        ''ExecCredential|client.authentication.k8s.io/v1beta1|1970-01-01T00:31:40Z|k8s-aws-v1.aHR0cHM6Ly9zdHMvP3g||''
        mode_0600
     \<in> set (fst (getEKSToken sample_env sample_params_certs))"
    by (simp add: sample_getEKSToken)
  have out: "Stdout ''ExecCredential|client.authentication.k8s.io/v1beta1|1970-01-01T00:31:40Z|k8s-aws-v1.aHR0cHM6Ly9zdHMvP3g|CERT|KEY\<newline>''
     \<in> set (fst (getEKSToken sample_env sample_params_certs))"
    by (simp add: sample_getEKSToken)
  from C6_persisted_record_has_no_certificates [OF w] obtain token where
    token: "json_MarshalIndent sample_env (tokenToCache token)
          = Inr ''ExecCredential|client.authentication.k8s.io/v1beta1|1970-01-01T00:31:40Z|k8s-aws-v1.aHR0cHM6Ly9zdHMvP3g||''"
      "ClientCertificateData (Status (tokenToCache token)) = ''''"
      "ClientKeyData (Status (tokenToCache token)) = ''''"
    and emitted: "\<And>line. Stdout line \<in> set (fst (getEKSToken sample_env sample_params_certs)) \<Longrightarrow>
           json_Marshal sample_env token = Inr (butlast line)"
    by blast
  from emitted [OF out] have "json_Marshal sample_env token
          = Inr ''ExecCredential|client.authentication.k8s.io/v1beta1|1970-01-01T00:31:40Z|k8s-aws-v1.aHR0cHM6Ly9zdHMvP3g|CERT|KEY''"
    by simp
  with token w out show ?thesis by blast
qed

text \<open>
  Claim C7. In an invocation that uses the cache, finds no valid cached token, fetches
  and augments a token and then fails to write it to the cache file, the failure is
  a warning on the error stream and nothing else: the token is written to standard
  output and \<^verbatim>\<open>getEKSToken\<close> returns \<^verbatim>\<open>nil\<close>, as it does when the write succeeds.
\<close>

theorem C7_cache_write_failure_is_a_warning:
  assumes cache: "\<not> IgnoreCache params"
    and derive: "getCacheFilePath env params = (es_path, Return (Inr cacheFile))"
    and miss: "\<forall>cached. readCachedToken env cacheFile = Inr cached \<longrightarrow> \<not> isTokenValid env cached"
    and fetch: "fetchNewToken env params = (es_fetch, Return (Inr token0))"
    and augment: "(if ClientCertFile params \<noteq> '''' \<or> ClientKeyFile params \<noteq> ''''
                   then addClientCertificates env token0 params else Inr token0) = Inr token"
    and written: "writeCachedToken env cacheFile (tokenToCache token) = (es_write, Return (Some err))"
    and marshal: "json_Marshal env token = Inr json"
  shows "getEKSToken env params
           = (es_path @ es_fetch @ es_path @ es_write
              @ [Stderr (''Warning: failed to cache token: '' @ error_msg err @ ''\<newline>''),
                 Stdout (json @ ''\<newline>'')],
              Return None)
         \<and> exit_status (snd (getEKSToken env params)) = 0"
proof -
  have tail: "getEKSToken_cache_and_output env params token
           = (es_path @ es_write
              @ [Stderr (''Warning: failed to cache token: '' @ error_msg err @ ''\<newline>''),
                 Stdout (json @ ''\<newline>'')],
              Return None)"
    using cache derive written marshal
    by (simp add: getEKSToken_cache_and_output_def outputToken_def)
  have fetched: "getEKSToken_fetch env params
           = (es_fetch @ es_path @ es_write
              @ [Stderr (''Warning: failed to cache token: '' @ error_msg err @ ''\<newline>''),
                 Stdout (json @ ''\<newline>'')],
              Return None)"
    using fetch augment tail by (simp add: getEKSToken_fetch_def)
  have "getEKSToken env params
           = (es_path @ es_fetch @ es_path @ es_write
              @ [Stderr (''Warning: failed to cache token: '' @ error_msg err @ ''\<newline>''),
                 Stdout (json @ ''\<newline>'')],
              Return None)"
  proof (cases "readCachedToken env cacheFile")
    case (Inl e)
    with cache derive fetched show ?thesis by (simp add: getEKSToken_def)
  next
    case (Inr cached)
    with miss have "\<not> isTokenValid env cached" by simp
    with Inr cache derive fetched show ?thesis by (simp add: getEKSToken_def)
  qed
  then show ?thesis by (simp add: exit_status_def)
qed

text \<open>The same invocation with a write that succeeds, for comparison.\<close>

lemma getEKSToken_cache_write_success:
  assumes cache: "\<not> IgnoreCache params"
    and derive: "getCacheFilePath env params = (es_path, Return (Inr cacheFile))"
    and miss: "\<forall>cached. readCachedToken env cacheFile = Inr cached \<longrightarrow> \<not> isTokenValid env cached"
    and fetch: "fetchNewToken env params = (es_fetch, Return (Inr token0))"
    and augment: "(if ClientCertFile params \<noteq> '''' \<or> ClientKeyFile params \<noteq> ''''
                   then addClientCertificates env token0 params else Inr token0) = Inr token"
    and written: "writeCachedToken env cacheFile (tokenToCache token) = (es_write, Return None)"
    and marshal: "json_Marshal env token = Inr json"
  shows "getEKSToken env params
           = (es_path @ es_fetch @ es_path @ es_write @ [Stdout (json @ ''\<newline>'')], Return None)"
proof -
  have tail: "getEKSToken_cache_and_output env params token
           = (es_path @ es_write @ [Stdout (json @ ''\<newline>'')], Return None)"
    using cache derive written marshal
    by (simp add: getEKSToken_cache_and_output_def outputToken_def ret_def)
  have fetched: "getEKSToken_fetch env params
           = (es_fetch @ es_path @ es_write @ [Stdout (json @ ''\<newline>'')], Return None)"
    using fetch augment tail by (simp add: getEKSToken_fetch_def)
  show ?thesis
  proof (cases "readCachedToken env cacheFile")
    case (Inl e)
    with cache derive fetched show ?thesis by (simp add: getEKSToken_def)
  next
    case (Inr cached)
    with miss have "\<not> isTokenValid env cached" by simp
    with Inr cache derive fetched show ?thesis by (simp add: getEKSToken_def)
  qed
qed

theorem C7_witness:
  "\<not> IgnoreCache sample_params_certs
   \<and> getCacheFilePath sample_env_read_only sample_params_certs
      = ([Mkdir ''/home/u/.kube/cache/tokens'' mode_0755],
         Return (Inr ''/home/u/.kube/cache/tokens/my-cluster_us-west-2.json''))
   \<and> readCachedToken sample_env_read_only ''/home/u/.kube/cache/tokens/my-cluster_us-west-2.json''
      = Inl (Err ''no such file or directory'')
   \<and> fetchNewToken sample_env_read_only sample_params_certs
      = ([Setenv ''AWS_STS_REGIONAL_ENDPOINTS'' ''regional''], Return (Inr sample_fetched))
   \<and> addClientCertificates sample_env_read_only sample_fetched sample_params_certs
      = Inr sample_augmented
   \<and> writeCachedToken sample_env_read_only ''/home/u/.kube/cache/tokens/my-cluster_us-west-2.json''
        (tokenToCache sample_augmented)
      = ([Write ''/home/u/.kube/cache/tokens/my-cluster_us-west-2.json''
            ''ExecCredential|client.authentication.k8s.io/v1beta1|1970-01-01T00:31:40Z|k8s-aws-v1.aHR0cHM6Ly9zdHMvP3g||''
            mode_0600],
         Return (Some (Err ''permission denied'')))
   \<and> getEKSToken sample_env_read_only sample_params_certs
      = ([Mkdir ''/home/u/.kube/cache/tokens'' mode_0755,
          Setenv ''AWS_STS_REGIONAL_ENDPOINTS'' ''regional'',
          Mkdir ''/home/u/.kube/cache/tokens'' mode_0755,
          Write ''/home/u/.kube/cache/tokens/my-cluster_us-west-2.json''
            ''ExecCredential|client.authentication.k8s.io/v1beta1|1970-01-01T00:31:40Z|k8s-aws-v1.aHR0cHM6Ly9zdHMvP3g||''
            mode_0600,
          Stderr ''Warning: failed to cache token: permission denied\<newline>'',
          Stdout ''ExecCredential|client.authentication.k8s.io/v1beta1|1970-01-01T00:31:40Z|k8s-aws-v1.aHR0cHM6Ly9zdHMvP3g|CERT|KEY\<newline>''],
         Return None)
   \<and> exit_status (snd (getEKSToken sample_env_read_only sample_params_certs)) = 0"
proof -
  let ?file = "''/home/u/.kube/cache/tokens/my-cluster_us-west-2.json''"
  have cache: "\<not> IgnoreCache sample_params_certs"
    and certs: "ClientCertFile sample_params_certs \<noteq> ''''"
    by (simp_all add: sample_params_certs_def sample_params_def)
  have derive: "getCacheFilePath sample_env_read_only sample_params_certs
      = ([Mkdir ''/home/u/.kube/cache/tokens'' mode_0755], Return (Inr ?file))"
    by (simp add: sample_env_read_only_def getCacheFilePath_without_WriteFile
          sample_getCacheFilePath)
  have read: "readCachedToken sample_env_read_only ?file = Inl (Err ''no such file or directory'')"
    by (simp add: sample_env_read_only_def readCachedToken_without_WriteFile
          sample_readCachedToken)
  then have miss: "\<forall>cached. readCachedToken sample_env_read_only ?file = Inr cached
                      \<longrightarrow> \<not> isTokenValid sample_env_read_only cached"
    by simp
  have fetch: "fetchNewToken sample_env_read_only sample_params_certs
      = ([Setenv ''AWS_STS_REGIONAL_ENDPOINTS'' ''regional''], Return (Inr sample_fetched))"
    by (simp add: sample_env_read_only_def fetchNewToken_without_WriteFile sample_fetchNewToken)
  have add: "addClientCertificates sample_env_read_only sample_fetched sample_params_certs
      = Inr sample_augmented"
    by (simp add: sample_env_read_only_def addClientCertificates_without_WriteFile
          sample_addClientCertificates)
  with certs have augment:
    "(if ClientCertFile sample_params_certs \<noteq> '''' \<or> ClientKeyFile sample_params_certs \<noteq> ''''
      then addClientCertificates sample_env_read_only sample_fetched sample_params_certs
      else Inr sample_fetched) = Inr sample_augmented"
    by simp
  have written: "writeCachedToken sample_env_read_only ?file (tokenToCache sample_augmented)
      = ([Write ?file
            ''ExecCredential|client.authentication.k8s.io/v1beta1|1970-01-01T00:31:40Z|k8s-aws-v1.aHR0cHM6Ly9zdHMvP3g||''
            mode_0600],
         Return (Some (Err ''permission denied'')))"
    by (simp add: writeCachedToken_def sample_tokenToCache sample_env_read_only_def
          sample_env_def sample_marshal_fetched)
  have marshal: "json_Marshal sample_env_read_only sample_augmented
      = Inr ''ExecCredential|client.authentication.k8s.io/v1beta1|1970-01-01T00:31:40Z|k8s-aws-v1.aHR0cHM6Ly9zdHMvP3g|CERT|KEY''"
    by (simp add: sample_env_read_only_def sample_env_def sample_marshal_augmented)
  from C7_cache_write_failure_is_a_warning [OF cache derive miss fetch augment written marshal]
  have "getEKSToken sample_env_read_only sample_params_certs
      = ([Mkdir ''/home/u/.kube/cache/tokens'' mode_0755,
          Setenv ''AWS_STS_REGIONAL_ENDPOINTS'' ''regional'',
          Mkdir ''/home/u/.kube/cache/tokens'' mode_0755,
          Write ?file
            ''ExecCredential|client.authentication.k8s.io/v1beta1|1970-01-01T00:31:40Z|k8s-aws-v1.aHR0cHM6Ly9zdHMvP3g||''
            mode_0600,
          Stderr ''Warning: failed to cache token: permission denied\<newline>'',
          Stdout ''ExecCredential|client.authentication.k8s.io/v1beta1|1970-01-01T00:31:40Z|k8s-aws-v1.aHR0cHM6Ly9zdHMvP3g|CERT|KEY\<newline>''],
         Return None)
      \<and> exit_status (snd (getEKSToken sample_env_read_only sample_params_certs)) = 0"
    by (simp add: exit_status_def)
  with cache derive read fetch add written show ?thesis by blast
qed

section \<open>The cache file path as a cache key\<close>

lemma strings_Split_nonempty: "strings_Split s sep \<noteq> []"
  by (induction s) (auto split: list.splits)

lemma strings_Split_no_sep: "sep \<notin> set s \<Longrightarrow> strings_Split s sep = [s]"
  by (induction s) auto

lemma strings_Split_append:
  "sep \<notin> set f \<Longrightarrow> strings_Split (d @ sep # f) sep = strings_Split d sep @ [f]"
proof (induction d)
  case Nil
  then show ?case by (simp add: strings_Split_no_sep)
next
  case (Cons c d)
  obtain piece pieces where "strings_Split d sep = piece # pieces"
    using strings_Split_nonempty [of d sep] by (cases "strings_Split d sep") auto
  with Cons show ?case by simp
qed

lemma strings_Join_snoc:
  "strings_Join (xs @ [f]) sep = (if xs = [] then f else strings_Join xs sep @ sep @ f)"
  by (induction xs sep rule: strings_Join.induct) auto

lemma clean_step_file:
  "f \<noteq> '''' \<Longrightarrow> f \<noteq> ''.'' \<Longrightarrow> f \<noteq> ''..'' \<Longrightarrow> clean_step rooted out f = out @ [f]"
  by (simp add: clean_step_def)

text \<open>
  Joining a directory with a file name that holds no separator and is none of the
  special elements appends the name to a prefix that the directory determines.
\<close>

lemma filepath_Join_file:
  "\<exists>prefix. \<forall>f. CHR ''/'' \<notin> set f \<and> f \<noteq> '''' \<and> f \<noteq> ''.'' \<and> f \<noteq> ''..''
       \<longrightarrow> filepath_Join [dir, f] = prefix @ f"
proof (cases "dir = ''''")
  case True
  have "filepath_Join [dir, f] = f"
    if "CHR ''/'' \<notin> set f" "f \<noteq> ''''" "f \<noteq> ''.''" "f \<noteq> ''..''" for f
  proof -
    from that have "hd f \<noteq> CHR ''/''" by (cases f) auto
    with that True show ?thesis
      by (simp add: filepath_Join_def filepath_Clean_def strings_Split_no_sep clean_step_file)
  qed
  then show ?thesis by (intro exI [of _ "''''"]) simp
next
  case False
  define rooted where "rooted = (hd dir = CHR ''/'')"
  define out where "out = foldl (clean_step rooted) [] (strings_Split dir CHR ''/'')"
  define prefix where
    "prefix = (if rooted then ''/'' else '''')
              @ (if out = [] then '''' else strings_Join out ''/'' @ ''/'')"
  have "filepath_Join [dir, f] = prefix @ f"
    if "CHR ''/'' \<notin> set f" "f \<noteq> ''''" "f \<noteq> ''.''" "f \<noteq> ''..''" for f
  proof -
    have joined: "strings_Join [dir, f] ''/'' = dir @ CHR ''/'' # f" by simp
    have "hd (dir @ CHR ''/'' # f) = hd dir" using False by simp
    moreover have "foldl (clean_step rooted) [] (strings_Split (dir @ CHR ''/'' # f) CHR ''/'')
                     = out @ [f]"
      using that by (simp add: strings_Split_append out_def clean_step_file)
    ultimately have "filepath_Clean (dir @ CHR ''/'' # f) = prefix @ f"
      by (simp add: filepath_Clean_def rooted_def [symmetric] prefix_def strings_Join_snoc)
    with False joined show ?thesis
      by (simp add: filepath_Join_def)
  qed
  then show ?thesis by blast
qed

lemma split_at_last:
  "a @ c # b = a' @ c # b' \<Longrightarrow> c \<notin> set b \<Longrightarrow> c \<notin> set b' \<Longrightarrow> a = a' \<and> b = b'"
  by (auto simp: append_eq_append_conv2 Cons_eq_append_conv append_eq_Cons_conv)

lemma split_at_first:
  "a @ c # b = a' @ c # b' \<Longrightarrow> c \<notin> set a \<Longrightarrow> c \<notin> set a' \<Longrightarrow> a = a' \<and> b = b'"
  by (auto simp: append_eq_append_conv2 Cons_eq_append_conv append_eq_Cons_conv)

lemma cacheDir_root: "CacheDir p1 = CacheDir p2 \<Longrightarrow> cacheDir env p1 = cacheDir env p2"
  by (simp add: cacheDir_def)

lemma getCacheFilePath_Inr:
  assumes "getCacheFilePath env p = (es, Return (Inr path))"
    and "clusterIdentifier p = Return ident"
  shows "\<exists>dir. cacheDir env p = Inr dir
           \<and> path = filepath_Join [dir, ident @ ''_'' @ Region p @ ''.json'']"
  using assms
  by (auto simp: getCacheFilePath_def split: sum.splits option.splits)

text \<open>
  Claim C3, as amended. Under one cache root, the derived path is a function of the
  short cluster name and the region. It tells two such pairs apart when no short name
  and no region holds a path separator, and either no region or no short name holds
  an underscore.
\<close>

theorem C3_cache_path_key:
  assumes root: "CacheDir p1 = CacheDir p2"
    and path1: "getCacheFilePath env p1 = (es1, Return (Inr path1))"
    and path2: "getCacheFilePath env p2 = (es2, Return (Inr path2))"
    and ident1: "clusterIdentifier p1 = Return s1"
    and ident2: "clusterIdentifier p2 = Return s2"
  shows "(s1 = s2 \<and> Region p1 = Region p2 \<longrightarrow> path1 = path2)
       \<and> (CHR ''/'' \<notin> set s1 \<union> set s2 \<union> set (Region p1) \<union> set (Region p2)
          \<and> (CHR ''_'' \<notin> set (Region p1) \<union> set (Region p2) \<or> CHR ''_'' \<notin> set s1 \<union> set s2)
          \<and> path1 = path2
          \<longrightarrow> s1 = s2 \<and> Region p1 = Region p2)"
proof -
  from getCacheFilePath_Inr [OF path1 ident1] getCacheFilePath_Inr [OF path2 ident2]
       cacheDir_root [OF root, of env]
  obtain dir where
    p1: "path1 = filepath_Join [dir, s1 @ ''_'' @ Region p1 @ ''.json'']" and
    p2: "path2 = filepath_Join [dir, s2 @ ''_'' @ Region p2 @ ''.json'']"
    by auto
  obtain prefix where prefix:
    "\<And>f. CHR ''/'' \<notin> set f \<Longrightarrow> f \<noteq> '''' \<Longrightarrow> f \<noteq> ''.'' \<Longrightarrow> f \<noteq> ''..''
         \<Longrightarrow> filepath_Join [dir, f] = prefix @ f"
    using filepath_Join_file [of dir] by blast
  have name: "filepath_Join [dir, s @ ''_'' @ r @ ''.json''] = prefix @ s @ ''_'' @ r @ ''.json''"
    if "CHR ''/'' \<notin> set s" "CHR ''/'' \<notin> set r" for s r
  proof (rule prefix)
    show "CHR ''/'' \<notin> set (s @ ''_'' @ r @ ''.json'')" using that by simp
    have "CHR ''_'' \<in> set (s @ ''_'' @ r @ ''.json'')" by simp
    then show "s @ ''_'' @ r @ ''.json'' \<noteq> ''''" "s @ ''_'' @ r @ ''.json'' \<noteq> ''.''"
      "s @ ''_'' @ r @ ''.json'' \<noteq> ''..''"
      by force+
  qed
  have injective: "s1 = s2 \<and> Region p1 = Region p2"
    if slash: "CHR ''/'' \<notin> set s1 \<union> set s2 \<union> set (Region p1) \<union> set (Region p2)"
    and underscore: "CHR ''_'' \<notin> set (Region p1) \<union> set (Region p2) \<or> CHR ''_'' \<notin> set s1 \<union> set s2"
    and same: "path1 = path2"
  proof -
    from slash same p1 p2 name [of s1 "Region p1"] name [of s2 "Region p2"]
    have eq: "s1 @ CHR ''_'' # (Region p1 @ ''.json'') = s2 @ CHR ''_'' # (Region p2 @ ''.json'')"
      by simp
    from underscore have "s1 = s2 \<and> Region p1 @ ''.json'' = Region p2 @ ''.json''"
    proof
      assume "CHR ''_'' \<notin> set (Region p1) \<union> set (Region p2)"
      then have "CHR ''_'' \<notin> set (Region p1 @ ''.json'')" "CHR ''_'' \<notin> set (Region p2 @ ''.json'')"
        by simp_all
      with eq show ?thesis by (rule split_at_last)
    next
      assume "CHR ''_'' \<notin> set s1 \<union> set s2"
      then have "CHR ''_'' \<notin> set s1" "CHR ''_'' \<notin> set s2" by simp_all
      with eq show ?thesis by (rule split_at_first)
    qed
    then show ?thesis by simp
  qed
  have "s1 = s2 \<and> Region p1 = Region p2 \<longrightarrow> path1 = path2"
    using p1 p2 by simp
  moreover have "CHR ''/'' \<notin> set s1 \<union> set s2 \<union> set (Region p1) \<union> set (Region p2)
          \<and> (CHR ''_'' \<notin> set (Region p1) \<union> set (Region p2) \<or> CHR ''_'' \<notin> set s1 \<union> set s2)
          \<and> path1 = path2
          \<longrightarrow> s1 = s2 \<and> Region p1 = Region p2"
    using injective by blast
  ultimately show ?thesis by (rule conjI)
qed

lemma sample_default_getCacheFilePath:
  assumes "CacheDir p = ''''" and "clusterIdentifier p = Return ident"
  shows "getCacheFilePath sample_env p
     = ([Mkdir ''/home/u/.kube/cache/tokens'' mode_0755],
        Return (Inr (filepath_Join [''/home/u/.kube/cache/tokens'', ident @ ''_'' @ Region p @ ''.json''])))"
  using assms by (simp add: getCacheFilePath_def sample_default_cacheDir) (simp add: sample_env_def)

lemma sample_arn_identifier: "clusterIdentifier sample_params_arn = Return ''my-cluster''"
  by (simp add: clusterIdentifier_def go_slice_def sample_params_arn_def sample_params_def)

lemma sample_join_collision:
  "filepath_Join [''/home/u/.kube/cache/tokens'', ''a_b_c.json'']
     = ''/home/u/.kube/cache/tokens/a_b_c.json''"
  by (simp add: filepath_Join_def filepath_Clean_def clean_step_def)

theorem C3_witness:
  "CacheDir sample_params = CacheDir sample_params_arn
   \<and> getCacheFilePath sample_env sample_params
      = ([Mkdir ''/home/u/.kube/cache/tokens'' mode_0755],
         Return (Inr ''/home/u/.kube/cache/tokens/my-cluster_us-west-2.json''))
   \<and> getCacheFilePath sample_env sample_params_arn
      = ([Mkdir ''/home/u/.kube/cache/tokens'' mode_0755],
         Return (Inr ''/home/u/.kube/cache/tokens/my-cluster_us-west-2.json''))
   \<and> clusterIdentifier sample_params = Return ''my-cluster''
   \<and> clusterIdentifier sample_params_arn = Return ''my-cluster''
   \<and> Region sample_params = ''us-west-2'' \<and> Region sample_params_arn = ''us-west-2''
   \<and> (\<exists>es path. getCacheFilePath sample_env (sample_params\<lparr>Region := ''eu-central-1''\<rparr>)
                     = (es, Return (Inr path))
          \<and> path \<noteq> ''/home/u/.kube/cache/tokens/my-cluster_us-west-2.json'')"
proof -
  let ?eu = "sample_params\<lparr>Region := ''eu-central-1''\<rparr>"
  have root: "CacheDir sample_params = CacheDir sample_params_arn"
    and root_eu: "CacheDir sample_params = CacheDir ?eu"
    by (simp_all add: sample_params_arn_def)
  have ident1: "clusterIdentifier sample_params = Return ''my-cluster''"
    and ident_eu: "clusterIdentifier ?eu = Return ''my-cluster''"
    by (simp_all add: clusterIdentifier_def sample_params_def)
  note ident2 = sample_arn_identifier
  have regions: "Region sample_params = ''us-west-2''" "Region sample_params_arn = ''us-west-2''"
    "Region ?eu = ''eu-central-1''"
    by (simp_all add: sample_params_arn_def sample_params_def)
  have path1: "getCacheFilePath sample_env sample_params
      = ([Mkdir ''/home/u/.kube/cache/tokens'' mode_0755],
         Return (Inr ''/home/u/.kube/cache/tokens/my-cluster_us-west-2.json''))"
    using sample_default_getCacheFilePath [OF _ ident1] regions sample_join
    by (simp add: sample_params_def)
  obtain es path where path2: "getCacheFilePath sample_env sample_params_arn = (es, Return (Inr path))"
    using sample_default_getCacheFilePath [OF _ ident2]
    by (simp add: sample_params_arn_def sample_params_def)
  from C3_cache_path_key [OF root path1 path2 ident1 ident2] regions
  have "''/home/u/.kube/cache/tokens/my-cluster_us-west-2.json'' = path" by simp
  with path2 sample_default_getCacheFilePath [OF _ ident2]
  have same: "getCacheFilePath sample_env sample_params_arn
      = ([Mkdir ''/home/u/.kube/cache/tokens'' mode_0755],
         Return (Inr ''/home/u/.kube/cache/tokens/my-cluster_us-west-2.json''))"
    by (simp add: sample_params_arn_def sample_params_def)
  obtain es_eu path_eu where
    path_eu: "getCacheFilePath sample_env ?eu = (es_eu, Return (Inr path_eu))"
    using sample_default_getCacheFilePath [OF _ ident_eu]
    by (simp add: sample_params_def)
  from C3_cache_path_key [OF root_eu path1 path_eu ident1 ident_eu] regions
  have "path_eu \<noteq> ''/home/u/.kube/cache/tokens/my-cluster_us-west-2.json''"
    by auto
  with path_eu have other:
    "\<exists>es path. getCacheFilePath sample_env ?eu = (es, Return (Inr path))
          \<and> path \<noteq> ''/home/u/.kube/cache/tokens/my-cluster_us-west-2.json''"
    by blast
  from root path1 same ident1 ident2 regions other show ?thesis by simp
qed

text \<open>
  The claim as stated fails for two inputs that configuration resolution accepts: the
  short names \<^verbatim>\<open>a_b\<close> and \<^verbatim>\<open>a\<close> with the regions \<^verbatim>\<open>c\<close> and \<^verbatim>\<open>b_c\<close> differ in
  both components and derive the same path.
\<close>

theorem C3_counterexample:
  "PreRunE sample_env (sample_params\<lparr>ClusterName := ''a_b'', Region := ''c''\<rparr>)
     = Inr (sample_params\<lparr>ClusterName := ''a_b'', Region := ''c''\<rparr>)
   \<and> PreRunE sample_env (sample_params\<lparr>ClusterName := ''a'', Region := ''b_c''\<rparr>)
     = Inr (sample_params\<lparr>ClusterName := ''a'', Region := ''b_c''\<rparr>)
   \<and> clusterIdentifier (sample_params\<lparr>ClusterName := ''a_b'', Region := ''c''\<rparr>) = Return ''a_b''
   \<and> clusterIdentifier (sample_params\<lparr>ClusterName := ''a'', Region := ''b_c''\<rparr>) = Return ''a''
   \<and> getCacheFilePath sample_env (sample_params\<lparr>ClusterName := ''a_b'', Region := ''c''\<rparr>)
      = ([Mkdir ''/home/u/.kube/cache/tokens'' mode_0755],
         Return (Inr ''/home/u/.kube/cache/tokens/a_b_c.json''))
   \<and> getCacheFilePath sample_env (sample_params\<lparr>ClusterName := ''a'', Region := ''b_c''\<rparr>)
      = ([Mkdir ''/home/u/.kube/cache/tokens'' mode_0755],
         Return (Inr ''/home/u/.kube/cache/tokens/a_b_c.json''))"
proof -
  let ?p1 = "sample_params\<lparr>ClusterName := ''a_b'', Region := ''c''\<rparr>"
  let ?p2 = "sample_params\<lparr>ClusterName := ''a'', Region := ''b_c''\<rparr>"
  have valid: "PreRunE sample_env ?p1 = Inr ?p1" "PreRunE sample_env ?p2 = Inr ?p2"
    by (simp_all add: PreRunE_def resolveRegion_def resolveProfile_def
          resolveSTSRegionalEndpoint_def validateResolved_def sample_params_def sample_env_def)
  have ident: "clusterIdentifier ?p1 = Return ''a_b''" "clusterIdentifier ?p2 = Return ''a''"
    by (simp_all add: clusterIdentifier_def sample_params_def)
  have "getCacheFilePath sample_env ?p1
      = ([Mkdir ''/home/u/.kube/cache/tokens'' mode_0755],
         Return (Inr ''/home/u/.kube/cache/tokens/a_b_c.json''))"
    using sample_default_getCacheFilePath [OF _ ident(1)] sample_join_collision
    by (simp add: sample_params_def)
  moreover have "getCacheFilePath sample_env ?p2
      = ([Mkdir ''/home/u/.kube/cache/tokens'' mode_0755],
         Return (Inr ''/home/u/.kube/cache/tokens/a_b_c.json''))"
    using sample_default_getCacheFilePath [OF _ ident(2)] sample_join_collision
    by (simp add: sample_params_def)
  ultimately show ?thesis using valid ident by simp
qed

end
